theory Spec2Isabelle
  imports Complex_Main "HOL-Library.Word" "HOL-Library.Sublist" "HOL-Library.AList"
    "HOL-Library.List_Lexorder"
begin

chapter \<open>Model of the program\<close>

section \<open>Python strings\<close>

text \<open>
  A Python \<open>str\<close> is a sequence of Unicode code points; it is modelled as the list of
  their numbers. \<open>bytes\<close> is a list of 8-bit words. A literal of the source is written
  \<open>str ''...''\<close>.
\<close>

type_synonym pystr = "nat list"
type_synonym byte = "8 word"

abbreviation str :: "string \<Rightarrow> pystr" where
  "str \<equiv> map of_char"

definition nl :: nat where
  "nl = 10"

text \<open>\<open>s.split(c)\<close> for a separator of one character: never the empty list.\<close>

fun split_char :: "nat \<Rightarrow> pystr \<Rightarrow> pystr list" where
  "split_char sep [] = [[]]"
| "split_char sep (c # cs) =
     (if c = sep then [] # split_char sep cs
      else (case split_char sep cs of
              [] \<Rightarrow> [[c]]
            | l # ls \<Rightarrow> (c # l) # ls))"

text \<open>\<open>s.startswith(p)\<close>.\<close>

definition startswith :: "pystr \<Rightarrow> pystr \<Rightarrow> bool" where
  "startswith s p = (take (length p) s = p)"

text \<open>\<open>s.find(sub)\<close>: the lowest index where \<open>sub\<close> occurs in \<open>s\<close>, or \<open>-1\<close>.\<close>

fun find_from :: "int \<Rightarrow> pystr \<Rightarrow> pystr \<Rightarrow> int" where
  "find_from i [] sub = (if sub = [] then i else - 1)"
| "find_from i (c # cs) sub =
     (if take (length sub) (c # cs) = sub then i else find_from (i + 1) cs sub)"

definition find :: "pystr \<Rightarrow> pystr \<Rightarrow> int" where
  "find s sub = find_from 0 s sub"

section \<open>Exceptions\<close>

text \<open>
  Every exception the modelled code raises or lets through is a value; a computation that
  may raise returns \<open>exn + 'a\<close>, with \<open>Inl\<close> for the exception. \<open>CustomException\<close> carries
  the constant part of its message, \<open>ClientError\<close> the error code of the response, and
  \<open>SystemExit\<close> the argument of \<open>sys.exit\<close> (\<open>None\<close> for \<open>sys.exit()\<close>).
\<close>

datatype exn =
    CustomException string
  | UnicodeEncodeError
  | UnicodeDecodeError
  | ValueError
  | BinasciiError
  | OSError
  | IndexError
  | ClientError string
  | PexpectTimeout
  | PexpectEOF "pystr"
  | KeyboardInterrupt
  | SystemExit "int option"
  | SyntaxError
  | OtherException string

definition ebind :: "exn + 'a \<Rightarrow> ('a \<Rightarrow> exn + 'b) \<Rightarrow> exn + 'b" where
  "ebind m f = (case m of Inl e \<Rightarrow> Inl e | Inr x \<Rightarrow> f x)"

section \<open>Artifact codec (netcat.py)\<close>

subsection \<open>UTF-8\<close>

text \<open>
  \<open>s.encode("utf-8")\<close> and \<open>bytes(s, "utf-8")\<close>: one to four bytes for each code point;
  a surrogate (\<open>0xD800\<close> to \<open>0xDFFF\<close>) cannot be encoded.
\<close>

definition utf8_encode_char :: "nat \<Rightarrow> byte list option" where
  "utf8_encode_char c =
     (if c < 0x80 then Some [of_nat c]
      else if c < 0x800 then Some [of_nat (0xC0 + c div 64), of_nat (0x80 + c mod 64)]
      else if c < 0x10000 then
        (if 0xD800 \<le> c \<and> c \<le> 0xDFFF then None
         else Some [of_nat (0xE0 + c div 4096), of_nat (0x80 + c div 64 mod 64),
                    of_nat (0x80 + c mod 64)])
      else if c < 0x110000 then
        Some [of_nat (0xF0 + c div 262144), of_nat (0x80 + c div 4096 mod 64),
              of_nat (0x80 + c div 64 mod 64), of_nat (0x80 + c mod 64)]
      else None)"

fun utf8_encode :: "pystr \<Rightarrow> exn + byte list" where
  "utf8_encode [] = Inr []"
| "utf8_encode (c # cs) =
     (case utf8_encode_char c of
        None \<Rightarrow> Inl UnicodeEncodeError
      | Some bs \<Rightarrow> ebind (utf8_encode cs) (\<lambda>rest. Inr (bs @ rest)))"

text \<open>
  \<open>str(b, "utf-8")\<close> and \<open>b.decode("utf-8")\<close>, strict: a lead byte says how many
  continuation bytes follow; overlong forms, surrogates and values above \<open>0x10FFFF\<close>
  are refused.
\<close>

definition continuation :: "byte \<Rightarrow> bool" where
  "continuation b = (0x80 \<le> unat b \<and> unat b \<le> 0xBF)"

fun utf8_decode :: "byte list \<Rightarrow> exn + pystr" where
  "utf8_decode [] = Inr []"
| "utf8_decode (b0 # bs) =
     (let n0 = unat b0 in
      if n0 < 0x80 then ebind (utf8_decode bs) (\<lambda>rest. Inr (n0 # rest))
      else if 0xC2 \<le> n0 \<and> n0 \<le> 0xDF then
        (case bs of
           b1 # r \<Rightarrow>
             if continuation b1
             then ebind (utf8_decode r)
                    (\<lambda>rest. Inr (((n0 - 0xC0) * 64 + (unat b1 - 0x80)) # rest))
             else Inl UnicodeDecodeError
         | _ \<Rightarrow> Inl UnicodeDecodeError)
      else if 0xE0 \<le> n0 \<and> n0 \<le> 0xEF then
        (case bs of
           b1 # b2 # r \<Rightarrow>
             (let cp = (n0 - 0xE0) * 4096 + (unat b1 - 0x80) * 64 + (unat b2 - 0x80)
              in if continuation b1 \<and> continuation b2 \<and> 0x800 \<le> cp \<and>
                    \<not> (0xD800 \<le> cp \<and> cp \<le> 0xDFFF)
                 then ebind (utf8_decode r) (\<lambda>rest. Inr (cp # rest))
                 else Inl UnicodeDecodeError)
         | _ \<Rightarrow> Inl UnicodeDecodeError)
      else if 0xF0 \<le> n0 \<and> n0 \<le> 0xF4 then
        (case bs of
           b1 # b2 # b3 # r \<Rightarrow>
             (let cp = (n0 - 0xF0) * 262144 + (unat b1 - 0x80) * 4096 +
                       (unat b2 - 0x80) * 64 + (unat b3 - 0x80)
              in if continuation b1 \<and> continuation b2 \<and> continuation b3 \<and>
                    0x10000 \<le> cp \<and> cp \<le> 0x10FFFF
                 then ebind (utf8_decode r) (\<lambda>rest. Inr (cp # rest))
                 else Inl UnicodeDecodeError)
         | _ \<Rightarrow> Inl UnicodeDecodeError)
      else Inl UnicodeDecodeError)"

subsection \<open>Hexadecimal and character translation\<close>

text \<open>\<open>binascii.hexlify\<close>: two lower-case hexadecimal digits for each byte.\<close>

definition hexdigit :: "nat \<Rightarrow> byte" where
  "hexdigit n = (if n < 10 then of_nat (0x30 + n) else of_nat (0x57 + n))"

definition hexlify :: "byte list \<Rightarrow> byte list" where
  "hexlify bs = concat (map (\<lambda>b. [hexdigit (unat b div 16), hexdigit (unat b mod 16)]) bs)"

text \<open>
  \<open>binascii.unhexlify\<close> of a \<open>str\<close>: the string must be ASCII, of even length, and of
  hexadecimal digits in either case.
\<close>

definition hexval :: "nat \<Rightarrow> nat option" where
  "hexval c =
     (if 0x30 \<le> c \<and> c \<le> 0x39 then Some (c - 0x30)
      else if 0x61 \<le> c \<and> c \<le> 0x66 then Some (c - 0x57)
      else if 0x41 \<le> c \<and> c \<le> 0x46 then Some (c - 0x37)
      else None)"

fun unhex_pairs :: "pystr \<Rightarrow> exn + byte list" where
  "unhex_pairs [] = Inr []"
| "unhex_pairs [c] = Inl BinasciiError"
| "unhex_pairs (h # l # cs) =
     (case (hexval h, hexval l) of
        (Some a, Some b) \<Rightarrow> ebind (unhex_pairs cs) (\<lambda>rest. Inr (of_nat (16 * a + b) # rest))
      | _ \<Rightarrow> Inl BinasciiError)"

definition unhexlify :: "pystr \<Rightarrow> exn + byte list" where
  "unhexlify s =
     (if list_ex (\<lambda>c. 0x80 \<le> c) s then Inl ValueError
      else if odd (length s) then Inl BinasciiError
      else unhex_pairs s)"

text \<open>\<open>str.maketrans(x, y)\<close> for two strings of the same length, and \<open>s.translate(table)\<close>.\<close>

definition maketrans :: "pystr \<Rightarrow> pystr \<Rightarrow> (nat \<times> nat) list" where
  "maketrans x y = zip x y"

definition translate :: "(nat \<times> nat) list \<Rightarrow> pystr \<Rightarrow> pystr" where
  "translate table s = map (\<lambda>c. case map_of table c of None \<Rightarrow> c | Some d \<Rightarrow> d) s"

subsection \<open>Command names\<close>

definition encode_command :: "pystr \<Rightarrow> exn + pystr" where
  "encode_command command_name =
     ebind (utf8_encode command_name) (\<lambda>encoded.
     ebind (utf8_decode (hexlify encoded)) (\<lambda>hex.
     Inr (translate (maketrans (str ''1234567890'') (str ''ghijklmnop'')) hex)))"

definition decode_command :: "pystr \<Rightarrow> exn + pystr" where
  "decode_command command_name =
     ebind (unhexlify (translate (maketrans (str ''ghijklmnop'') (str ''1234567890'')) command_name))
       utf8_decode"

subsection \<open>Notions used in the statements about the codec\<close>

text \<open>
  A string is UTF-8 text when each of its code points is a Unicode scalar value: below
  \<open>0x110000\<close> and no surrogate. \<open>hexchar\<close> holds of the characters \<open>0\<close> to \<open>9\<close> and
  \<open>a\<close> to \<open>f\<close>; \<open>to_letters\<close> and \<open>to_digits\<close> name the two translation tables.
\<close>

definition unicode_scalar :: "nat \<Rightarrow> bool" where
  "unicode_scalar c = (c < 0xD800 \<or> (0xE000 \<le> c \<and> c < 0x110000))"

definition hexchar :: "nat \<Rightarrow> bool" where
  "hexchar c = ((0x30 \<le> c \<and> c \<le> 0x39) \<or> (0x61 \<le> c \<and> c \<le> 0x66))"

definition to_letters :: "(nat \<times> nat) list" where
  "to_letters = maketrans (str ''1234567890'') (str ''ghijklmnop'')"

definition to_digits :: "(nat \<times> nat) list" where
  "to_digits = maketrans (str ''ghijklmnop'') (str ''1234567890'')"

section \<open>Device data\<close>

text \<open>
  A Python \<open>dict\<close> keeps its keys in insertion order and is modelled as an association
  list; \<open>d.get(k, default)\<close> is \<open>dict_get\<close>. The device data structure built by
  \<open>NetCatCliAccess.get_device_data\<close> has four keys and is a record; a value of type
  \<open>device_data option\<close> stands for a dictionary that may be the empty one (\<open>None\<close>).
\<close>

type_synonym 'v dict = "(pystr \<times> 'v) list"

definition dict_get :: "'v dict \<Rightarrow> pystr \<Rightarrow> 'v \<Rightarrow> 'v" where
  "dict_get d k dflt = (case map_of d k of None \<Rightarrow> dflt | Some v \<Rightarrow> v)"

record device_data =
  snapshot_timestamp :: int
  device_name :: pystr
  device_type :: pystr
  output_formats :: "pystr dict dict"

section \<open>Compression of device data (netcat.py)\<close>

text \<open>
  \<open>bz2.compress\<close>, \<open>bz2.decompress\<close>, \<open>base64.b85encode\<close> and \<open>base64.b85decode\<close> belong
  to the Python library; the model takes them as the fields of a \<open>codec\<close>. Their
  contract is \<open>codec_roundtrip\<close>: decompression undoes compression, the base-85 text is
  UTF-8 and decodes to the bytes it was made from.
\<close>

record codec =
  compress :: "byte list \<Rightarrow> byte list"
  decompress :: "byte list \<Rightarrow> exn + byte list"
  b85encode :: "byte list \<Rightarrow> byte list"
  b85decode :: "pystr \<Rightarrow> exn + byte list"

definition codec_roundtrip :: "codec \<Rightarrow> bool" where
  "codec_roundtrip c \<longleftrightarrow>
     (\<forall>raw. decompress c (compress c raw) = Inr raw) \<and>
     (\<forall>z. ebind (utf8_decode (b85encode c z)) (b85decode c) = Inr z)"

text \<open>
  In \<open>d[key(k)] = value(v)\<close> Python evaluates the right-hand side first; an assignment to
  a key of a dictionary is \<open>AList.update\<close>.
\<close>

definition compress_output :: "codec \<Rightarrow> pystr \<Rightarrow> exn + pystr" where
  "compress_output c command_data =
     ebind (utf8_encode command_data) (\<lambda>raw. utf8_decode (b85encode c (compress c raw)))"

fun compress_commands :: "codec \<Rightarrow> pystr dict \<Rightarrow> pystr dict \<Rightarrow> exn + pystr dict" where
  "compress_commands c [] acc = Inr acc"
| "compress_commands c ((command_name, command_data) # rest) acc =
     ebind (compress_output c command_data) (\<lambda>blob.
     ebind (encode_command command_name) (\<lambda>key.
     compress_commands c rest (AList.update key blob acc)))"

fun compress_formats :: "codec \<Rightarrow> pystr dict dict \<Rightarrow> pystr dict dict \<Rightarrow> exn + pystr dict dict" where
  "compress_formats c [] acc = Inr acc"
| "compress_formats c ((format_name, format_data) # rest) acc =
     ebind (compress_commands c format_data []) (\<lambda>commands.
     compress_formats c rest
       (AList.update format_name commands (AList.update format_name [] acc)))"

definition compress_device_data :: "codec \<Rightarrow> device_data option \<Rightarrow> exn + device_data option" where
  "compress_device_data c device_data =
     (case device_data of
        None \<Rightarrow> Inr None
      | Some d \<Rightarrow>
          ebind (compress_formats c (output_formats d) []) (\<lambda>formats.
          Inr (Some \<lparr>snapshot_timestamp = snapshot_timestamp d, device_name = device_name d,
                     device_type = device_type d, output_formats = formats\<rparr>)))"

definition decompress_output :: "codec \<Rightarrow> pystr \<Rightarrow> exn + pystr" where
  "decompress_output c command_data =
     ebind (b85decode c command_data) (\<lambda>z. ebind (decompress c z) utf8_decode)"

fun decompress_commands :: "codec \<Rightarrow> pystr dict \<Rightarrow> pystr dict \<Rightarrow> exn + pystr dict" where
  "decompress_commands c [] acc = Inr acc"
| "decompress_commands c ((command_name, command_data) # rest) acc =
     ebind (decompress_output c command_data) (\<lambda>output.
     ebind (decode_command command_name) (\<lambda>key.
     decompress_commands c rest (AList.update key output acc)))"

fun decompress_formats :: "codec \<Rightarrow> pystr dict dict \<Rightarrow> pystr dict dict \<Rightarrow> exn + pystr dict dict" where
  "decompress_formats c [] acc = Inr acc"
| "decompress_formats c ((format_name, format_data) # rest) acc =
     ebind (decompress_commands c format_data []) (\<lambda>commands.
     decompress_formats c rest
       (AList.update format_name commands (AList.update format_name [] acc)))"

definition decompress_device_data :: "codec \<Rightarrow> device_data option \<Rightarrow> exn + device_data option" where
  "decompress_device_data c compressed_device_data =
     (case compressed_device_data of
        None \<Rightarrow> Inr None
      | Some d \<Rightarrow>
          ebind (decompress_formats c (output_formats d) []) (\<lambda>formats.
          Inr (Some \<lparr>snapshot_timestamp = snapshot_timestamp d, device_name = device_name d,
                     device_type = device_type d, output_formats = formats\<rparr>)))"

text \<open>
  A well-formed snapshot: the keys of each dictionary are distinct, and the command names
  and the command outputs are UTF-8 text.
\<close>

definition well_formed_commands :: "pystr dict \<Rightarrow> bool" where
  "well_formed_commands commands \<longleftrightarrow>
     distinct (map fst commands) \<and>
     list_all (\<lambda>(command_name, command_data).
                 list_all unicode_scalar command_name \<and> list_all unicode_scalar command_data)
       commands"

definition well_formed_snapshot :: "device_data \<Rightarrow> bool" where
  "well_formed_snapshot d \<longleftrightarrow>
     distinct (map fst (output_formats d)) \<and>
     list_all (\<lambda>(format_name, commands). well_formed_commands commands) (output_formats d)"

text \<open>
  The key and the blob that compression gives to a command name and to a command output.
\<close>

definition ckey :: "pystr \<Rightarrow> pystr" where
  "ckey k = projr (encode_command k)"

definition cblob :: "codec \<Rightarrow> pystr \<Rightarrow> pystr" where
  "cblob c v = projr (compress_output c v)"

section \<open>Change detector (netcat\_backup.py)\<close>

definition exclusions :: "pystr list" where
  "exclusions = [str ''!Time:'', str ''no ip domain-lookup'', str ''state up'', str ''state down'']"

text \<open>
  The inner \<open>for ... else\<close> of \<open>compare_command_outputs\<close>: \<open>True\<close> when the loop over
  the exclusions leaves by \<open>break\<close>, \<open>False\<close> when it runs into its \<open>else\<close>.
\<close>

definition exclusion_found :: "pystr \<Rightarrow> pystr \<Rightarrow> bool" where
  "exclusion_found output_a_line output_b_line =
     list_ex (\<lambda>exclusion. find output_a_line exclusion \<ge> 0 \<or> find output_b_line exclusion \<ge> 0)
       exclusions"

fun compare_lines :: "(pystr \<times> pystr) list \<Rightarrow> bool" where
  "compare_lines [] = True"
| "compare_lines ((output_a_line, output_b_line) # rest) =
     (if output_a_line \<noteq> output_b_line
      then (if exclusion_found output_a_line output_b_line then compare_lines rest else False)
      else compare_lines rest)"

definition compare_command_outputs :: "pystr \<Rightarrow> pystr \<Rightarrow> bool" where
  "compare_command_outputs output_a output_b =
     (let output_a_lines = split_char nl output_a;
          output_b_lines = split_char nl output_b
      in if length output_a_lines \<noteq> length output_b_lines then False
         else compare_lines (zip output_a_lines output_b_lines))"

text \<open>
  \<open>detect_config_change\<close>. The argument \<open>latest_backup\<close> is what
  \<open>db.load_latest_backup(device_info["device_name"])\<close> returned: \<open>None\<close> is the empty
  dictionary the storage adapters return when the device has no backup. A loop
  \<open>for k in d: ... d[k] ...\<close> runs over the entries of the dictionary.
\<close>

definition previous_formats_of :: "device_data option \<Rightarrow> pystr dict dict" where
  "previous_formats_of latest_backup =
     (case latest_backup of None \<Rightarrow> [] | Some d \<Rightarrow> output_formats d)"

fun scan_commands :: "pystr dict \<Rightarrow> pystr dict \<Rightarrow> bool \<Rightarrow> bool" where
  "scan_commands previous_commands [] config_change_detected = config_change_detected"
| "scan_commands previous_commands ((command_output_key, output) # rest) config_change_detected =
     scan_commands previous_commands rest
       (if \<not> compare_command_outputs output (dict_get previous_commands command_output_key [])
        then True else config_change_detected)"

fun scan_formats :: "pystr dict dict \<Rightarrow> pystr dict dict \<Rightarrow> bool \<Rightarrow> bool" where
  "scan_formats previous_formats [] config_change_detected = config_change_detected"
| "scan_formats previous_formats ((format_key, commands) # rest) config_change_detected =
     scan_formats previous_formats rest
       (scan_commands (dict_get previous_formats format_key []) commands config_change_detected)"

definition detect_config_change :: "device_data option \<Rightarrow> device_data \<Rightarrow> bool" where
  "detect_config_change latest_backup device_info =
     (let previous_formats = previous_formats_of latest_backup
      in if previous_formats = [] then True
         else
           let current_formats =
                 filter (\<lambda>(format_key, commands). startswith format_key (str ''backup''))
                   (output_formats device_info)
           in scan_formats previous_formats current_formats False)"

subsection \<open>The change decision in the words of the specification\<close>

definition volatile :: "pystr \<Rightarrow> bool" where
  "volatile line = list_ex (\<lambda>fragment. sublist fragment line) exclusions"

definition equivalent_outputs :: "pystr \<Rightarrow> pystr \<Rightarrow> bool" where
  "equivalent_outputs a b =
     (let la = split_char nl a; lb = split_char nl b
      in length la = length lb \<and>
         list_all (\<lambda>(x, y). x = y \<or> volatile x \<or> volatile y) (zip la lb))"

definition previous_output :: "device_data option \<Rightarrow> pystr \<Rightarrow> pystr \<Rightarrow> pystr" where
  "previous_output latest_backup format_key command =
     dict_get (dict_get (previous_formats_of latest_backup) format_key []) command []"

definition section_differs :: "device_data option \<Rightarrow> device_data \<Rightarrow> bool" where
  "section_differs latest_backup device_info =
     list_ex (\<lambda>(format_key, commands).
                startswith format_key (str ''backup'') \<and>
                list_ex (\<lambda>(command, output).
                           \<not> equivalent_outputs output (previous_output latest_backup format_key command))
                  commands)
       (output_formats device_info)"

section \<open>Storage adapter (netcat\_dynamodb.py)\<close>

definition DBT_INFO :: pystr where
  "DBT_INFO = str ''netcat_info''"

definition DBT_BACKUP :: pystr where
  "DBT_BACKUP = str ''netcat_backup''"

definition DBT_STATUS :: pystr where
  "DBT_STATUS = str ''netcat_status''"

text \<open>
  The status document of \<open>save_final_status\<close>: for each device name its type and the two
  flags (the keys \<open>device_type\<close>, \<open>failed\<close> and \<open>successful\<close>), under the keys
  \<open>snapshot_name\<close>, \<open>snapshot_timestamp\<close> and \<open>device_info_dict\<close>. A document handed to \<open>write\<close> is device data or a job status.
\<close>

record device_status =
  status_device_type :: pystr
  status_failed :: bool
  status_successful :: bool

record job_status =
  snapshot_name :: pystr
  status_timestamp :: int
  device_info_dict :: "device_status dict"

datatype document = DeviceData "device_data option" | JobStatus job_status

text \<open>
  What lies outside the program is an environment: \<open>put_item env n\<close> is what the call
  number \<open>n\<close> of \<open>DB_CLIENT.put_item\<close> does (it returns, it raises a botocore
  \<open>ClientError\<close> with an error code, or it raises something else), \<open>random env n\<close> is the
  value number \<open>n\<close> of \<open>random.random()\<close>, and \<open>load_latest_backup env\<close> is the answer of
  \<open>db.load_latest_backup\<close> for a device name. The state of a process counts the calls and
  records the items the database accepted and the arguments of \<open>time.sleep\<close>. Log messages
  are not modelled, and an item is recorded as the document that \<open>_unfold\<close> is applied to.
\<close>

datatype put_result = PutOk | PutClientError string | PutRaises exn

record env =
  put_item :: "nat \<Rightarrow> put_result"
  random :: "nat \<Rightarrow> real"
  load_latest_backup :: "pystr \<Rightarrow> exn + device_data option"

record world =
  put_calls :: nat
  draws :: nat
  stored :: "(pystr \<times> document) list"
  slept :: "real list"

text \<open>\<open>random.uniform(a, b)\<close> is \<open>a + (b - a) * random()\<close>, here over the reals.\<close>

definition uniform :: "real \<Rightarrow> real \<Rightarrow> real \<Rightarrow> real" where
  "uniform a b u = a + (b - a) * u"

definition retryable :: "string \<Rightarrow> bool" where
  "retryable code \<longleftrightarrow>
     code \<in> {''ProvisionedThroughputExceededException'', ''ThrottlingException''}"

text \<open>
  The \<open>while attempts: ... else: ...\<close> loop of \<open>write\<close>; the counter \<open>attempts\<close> is a
  natural number, as for the default \<open>max_attempts=15\<close>. The first equation is the \<open>else\<close>
  branch of the loop.
\<close>

fun put_loop ::
  "env \<Rightarrow> pystr \<Rightarrow> document \<Rightarrow> real \<Rightarrow> nat \<Rightarrow> world \<Rightarrow> (exn + unit) \<times> world" where
  "put_loop env table_name item max_sleep_time 0 w =
     (Inl (CustomException ''Botocore: Unable to write device data document into database table after max_attempts attempts''), w)"
| "put_loop env table_name item max_sleep_time (Suc attempts) w =
     (case put_item env (put_calls w) of
        PutOk \<Rightarrow>
          (Inr (), w\<lparr>put_calls := Suc (put_calls w), stored := stored w @ [(table_name, item)]\<rparr>)
      | PutClientError code \<Rightarrow>
          if \<not> retryable code
          then (Inl (CustomException ''Botocore: Unable to write document into table, Botocore exception''),
                w\<lparr>put_calls := Suc (put_calls w)\<rparr>)
          else
            let sleep_time = uniform 0.1 max_sleep_time (random env (draws w))
            in put_loop env table_name item max_sleep_time attempts
                 (w\<lparr>put_calls := Suc (put_calls w), draws := Suc (draws w),
                    slept := slept w @ [sleep_time]\<rparr>)
      | PutRaises e \<Rightarrow> (Inl e, w\<lparr>put_calls := Suc (put_calls w)\<rparr>))"

text \<open>
  \<open>write(table_name, document, max_attempts=15, max_sleep_time=10)\<close>, called as \<open>db.write\<close>;
  \<open>db_write\<close> is the call with the default arguments. The program hands
  device data to the info and backup tables and the job status to the status table; a job
  status is never compressed.
\<close>

definition prepare_document :: "codec \<Rightarrow> pystr \<Rightarrow> document \<Rightarrow> exn + document" where
  "prepare_document c table_name doc =
     (if table_name \<in> {DBT_INFO, DBT_BACKUP}
      then (case doc of
              DeviceData d \<Rightarrow> ebind (compress_device_data c d) (\<lambda>z. Inr (DeviceData z))
            | JobStatus s \<Rightarrow> Inr (JobStatus s))
      else Inr doc)"

definition write_with ::
  "nat \<Rightarrow> real \<Rightarrow> codec \<Rightarrow> env \<Rightarrow> pystr \<Rightarrow> document \<Rightarrow> world \<Rightarrow> (exn + unit) \<times> world" where
  "write_with max_attempts max_sleep_time c env table_name doc w =
     (case prepare_document c table_name doc of
        Inl e \<Rightarrow> (Inl e, w)
      | Inr item \<Rightarrow> put_loop env table_name item max_sleep_time max_attempts w)"

definition db_write :: "codec \<Rightarrow> env \<Rightarrow> pystr \<Rightarrow> document \<Rightarrow> world \<Rightarrow> (exn + unit) \<times> world" where
  "db_write = write_with 15 10"


subsection \<open>Notions used in the statements about the storage adapter\<close>

text \<open>
  A throttled attempt is one that raises a \<open>ClientError\<close> with a retryable code, and
  \<open>after_throttling env m n w\<close> is the state after \<open>n\<close> throttled attempts.
\<close>

definition throttled :: "put_result \<Rightarrow> bool" where
  "throttled r = (case r of PutClientError code \<Rightarrow> retryable code | _ \<Rightarrow> False)"

definition after_throttling :: "env \<Rightarrow> real \<Rightarrow> nat \<Rightarrow> world \<Rightarrow> world" where
  "after_throttling env max_sleep_time n w =
     w\<lparr>put_calls := put_calls w + n, draws := draws w + n,
       slept := slept w @ map (\<lambda>i. uniform 0.1 max_sleep_time (random env (draws w + i))) [0..<n]\<rparr>"

section \<open>Saving device data and the device job (netcat\_backup.py)\<close>

text \<open>
  The dictionary built by the inner function \<open>_\<close> of \<open>save_device_data\<close>; \<open>table_name[7:]\<close>
  is \<open>drop 7 table_name\<close>.
\<close>

definition make_document :: "device_data \<Rightarrow> int \<Rightarrow> pystr \<Rightarrow> device_data" where
  "make_document device_data timestamp table_name =
     \<lparr>snapshot_timestamp = timestamp,
      device_name = device_name device_data,
      device_type = device_type device_data,
      output_formats =
        filter (\<lambda>(format_name, commands). startswith format_name (drop 7 table_name))
          (output_formats device_data)\<rparr>"

definition save_table ::
  "codec \<Rightarrow> env \<Rightarrow> device_data \<Rightarrow> int \<Rightarrow> pystr \<Rightarrow> world \<Rightarrow> (exn + unit) \<times> world" where
  "save_table c env device_data timestamp table_name w =
     db_write c env table_name (DeviceData (Some (make_document device_data timestamp table_name))) w"

definition save_device_data ::
  "codec \<Rightarrow> env \<Rightarrow> device_data \<Rightarrow> int \<Rightarrow> bool \<Rightarrow> bool \<Rightarrow> world \<Rightarrow> (exn + unit) \<times> world" where
  "save_device_data c env device_data timestamp config_change force_backup w =
     (if config_change \<or> force_backup
      then (case save_table c env device_data timestamp DBT_BACKUP w of
              (Inl e, w') \<Rightarrow> (Inl e, w')
            | (Inr u, w') \<Rightarrow> save_table c env device_data timestamp DBT_INFO w')
      else save_table c env device_data timestamp DBT_INFO w)"

text \<open>
  An entry of the inventory (\<open>device_info\<close>): the keys \<open>device_name\<close> and \<open>device_type\<close> are
  the fields \<open>info_device_name\<close> and \<open>info_device_type\<close>. What a CLI session with the device
  yields (\<open>with ...CliAccess(device_info) as cli: return cli.get_device_data()\<close>) is the
  parameter \<open>session\<close>.
\<close>

record device_info =
  info_device_name :: pystr
  info_device_type :: pystr
  auth :: pystr
  username :: pystr
  password :: pystr

definition get_device_data ::
  "(device_info \<Rightarrow> exn + device_data) \<Rightarrow> device_info \<Rightarrow> exn + device_data" where
  "get_device_data session device_info =
     (if startswith (info_device_type device_info) (str ''paloalto'') then session device_info
      else if startswith (info_device_type device_info) (str ''cisco'') then session device_info
      else if startswith (info_device_type device_info) (str ''f5'') then session device_info
      else Inl (CustomException ''Unsupported device type''))"

text \<open>
  The decorator \<open>netcat.exception_handler\<close>: a \<open>CustomException\<close> and a
  \<open>KeyboardInterrupt\<close> become \<open>sys.exit(1)\<close>, everything else is raised again.
\<close>

definition exception_handler :: "exn + 'a \<Rightarrow> exn + 'a" where
  "exception_handler result =
     (case result of
        Inl (CustomException message) \<Rightarrow> Inl (SystemExit (Some 1))
      | Inl KeyboardInterrupt \<Rightarrow> Inl (SystemExit (Some 1))
      | _ \<Rightarrow> result)"

text \<open>The body of \<open>cli_process\<close>, and \<open>cli_process\<close> as decorated.\<close>

definition cli_process_body ::
  "codec \<Rightarrow> env \<Rightarrow> (device_info \<Rightarrow> exn + device_data) \<Rightarrow> device_info \<Rightarrow> int \<Rightarrow> bool \<Rightarrow> bool \<Rightarrow>
   world \<Rightarrow> (exn + pystr list) \<times> world" where
  "cli_process_body c env session device_info timestamp force_backup test_run w =
     (case get_device_data session device_info of
        Inl e \<Rightarrow> (Inl e, w)
      | Inr device_data \<Rightarrow>
          if \<not> test_run
          then (case load_latest_backup env (device_name device_data) of
                  Inl e \<Rightarrow> (Inl e, w)
                | Inr latest_backup \<Rightarrow>
                    let config_change = detect_config_change latest_backup device_data
                    in (case save_device_data c env device_data timestamp config_change force_backup w of
                          (Inl e, w') \<Rightarrow> (Inl e, w')
                        | (Inr u, w') \<Rightarrow> (Inr [info_device_name device_info], w')))
          else (Inr [info_device_name device_info], w))"

definition cli_process ::
  "codec \<Rightarrow> env \<Rightarrow> (device_info \<Rightarrow> exn + device_data) \<Rightarrow> device_info \<Rightarrow> int \<Rightarrow> bool \<Rightarrow> bool \<Rightarrow>
   world \<Rightarrow> (exn + pystr list) \<times> world" where
  "cli_process c env session device_info timestamp force_backup test_run w =
     (case cli_process_body c env session device_info timestamp force_backup test_run w of
        (result, w') \<Rightarrow> (exception_handler result, w'))"


section \<open>CLI session (netcat\_cli.py)\<close>

text \<open>
  The fields of a \<open>NetCatCliAccess\<close> object that \<open>open_cli\<close> reads. The child process is
  driven through \<open>pexpect\<close>: \<open>expect_result x n\<close> is what the call number \<open>n\<close> of
  \<open>self.cli.expect\<close> does (the index of the pattern that matched, a \<open>TIMEOUT\<close>, or an
  \<open>EOF\<close> with its value), and the state of the session is the number of such calls and the
  trace of what the program did. \<open>pexpect.spawn\<close> is taken to return.
\<close>

record cli_access =
  self_username :: pystr
  self_password :: pystr
  self_auth :: pystr
  self_name :: pystr
  self_cli_prompt :: pystr
  self_password_prompt :: pystr

datatype expect_outcome = Matched nat | Timeout | Eof pystr

datatype cli_event = Spawn pystr | SendLine pystr | Expect "pystr list" | Sleep nat

record cli_world =
  expect_calls :: nat
  trace :: "cli_event list"

definition spawn :: "pystr \<Rightarrow> cli_world \<Rightarrow> cli_world" where
  "spawn command w = w\<lparr>trace := trace w @ [Spawn command]\<rparr>"

definition sendline :: "pystr \<Rightarrow> cli_world \<Rightarrow> cli_world" where
  "sendline s w = w\<lparr>trace := trace w @ [SendLine s]\<rparr>"

definition sleep :: "nat \<Rightarrow> cli_world \<Rightarrow> cli_world" where
  "sleep seconds w = w\<lparr>trace := trace w @ [Sleep seconds]\<rparr>"

definition expect ::
  "(nat \<Rightarrow> expect_outcome) \<Rightarrow> pystr list \<Rightarrow> cli_world \<Rightarrow> (exn + nat) \<times> cli_world" where
  "expect expect_result patterns w =
     (let w' = w\<lparr>expect_calls := Suc (expect_calls w), trace := trace w @ [Expect patterns]\<rparr>
      in case expect_result (expect_calls w) of
           Matched i \<Rightarrow> (Inr i, w')
         | Timeout \<Rightarrow> (Inl PexpectTimeout, w')
         | Eof v \<Rightarrow> (Inl (PexpectEOF v), w'))"

text \<open>
  The loop \<open>for second_password_attempt in [False, True]\<close> of the password branch. A
  \<open>return\<close> inside the loop ends \<open>open_cli\<close>; leaving the loop at its end does so as well.
\<close>

fun password_loop ::
  "(nat \<Rightarrow> expect_outcome) \<Rightarrow> cli_access \<Rightarrow> bool list \<Rightarrow> cli_world \<Rightarrow> (exn + unit) \<times> cli_world" where
  "password_loop x self [] w = (Inr (), w)"
| "password_loop x self (second_password_attempt # rest) w =
     (case expect x [self_cli_prompt self, self_password_prompt self]
             (sendline (self_password self) w) of
        (Inl e, w') \<Rightarrow> (Inl e, w')
      | (Inr expect_output_index, w') \<Rightarrow>
          if expect_output_index = 0 then (Inr (), w')
          else if expect_output_index = 1 \<and> \<not> second_password_attempt
          then password_loop x self rest (sleep 5 w')
          else if expect_output_index = 1 \<and> second_password_attempt
          then (Inl (CustomException ''Cannot login with supplied credentials''), w')
          else (Inl (CustomException ''Problem with expect when logging to device, expect_output_index is out of range''), w'))"

text \<open>The loop \<open>for known_hosts_check_happened_already in [False, True]\<close> of the RSA branch.\<close>

fun rsa_loop ::
  "(nat \<Rightarrow> expect_outcome) \<Rightarrow> cli_access \<Rightarrow> bool list \<Rightarrow> cli_world \<Rightarrow> (exn + unit) \<times> cli_world" where
  "rsa_loop x self [] w = (Inr (), w)"
| "rsa_loop x self (known_hosts_check_happened_already # rest) w =
     (case expect x [self_cli_prompt self,
                     str ''Are you sure you want to continue connecting (yes/no)?'',
                     self_password_prompt self, str ''Connection refused''] w of
        (Inl e, w') \<Rightarrow> (Inl e, w')
      | (Inr expect_output_index, w') \<Rightarrow>
          if expect_output_index = 0 then (Inr (), w')
          else if expect_output_index = 1 \<and> \<not> known_hosts_check_happened_already
          then rsa_loop x self rest (sendline (str ''yes'') w')
          else if expect_output_index = 2
          then (Inl (CustomException ''RSA authentication error, key may not be valid''), w')
          else if expect_output_index = 3
          then (Inl (CustomException ''Connection refused by device''), w')
          else (Inl (CustomException ''Problem with expect when logging to device, expect_output_index is out of range''), w'))"

text \<open>The body of \<open>open_cli\<close>.\<close>

definition open_cli_body ::
  "(nat \<Rightarrow> expect_outcome) \<Rightarrow> cli_access \<Rightarrow> cli_world \<Rightarrow> (exn + unit) \<times> cli_world" where
  "open_cli_body x self w =
     (if self_auth self = str ''password''
      then
        (case expect x [self_password_prompt self,
                        str ''Are you sure you want to continue connecting (yes/no)?'',
                        str ''Connection refused'']
                (spawn (str ''ssh -o PubkeyAuthentication=no -l '' @ self_username self @ str '' '' @
                        self_name self) w) of
           (Inl e, w1) \<Rightarrow> (Inl e, w1)
         | (Inr expect_output_index, w1) \<Rightarrow>
             (case (if expect_output_index = 1
                    then (case expect x [self_password_prompt self] (sendline (str ''yes'') w1) of
                            (Inl e, w2) \<Rightarrow> (Inl e, w2)
                          | (Inr i, w2) \<Rightarrow> (Inr (), w2))
                    else (Inr (), w1)) of
                (Inl e, w2) \<Rightarrow> (Inl e, w2)
              | (Inr u, w2) \<Rightarrow>
                  if expect_output_index = 2
                  then (Inl (CustomException ''Connection refused by device''), w2)
                  else password_loop x self [False, True] w2))
      else if self_auth self = str ''rsa''
      then rsa_loop x self [False, True]
             (spawn (str ''ssh -o PubkeyAuthentication=yes -l '' @ self_username self @ str '' '' @
                     self_name self) w)
      else (Inl (CustomException ''Unknown authentication type''), w))"

text \<open>
  The decorator \<open>exception_handler\<close> of netcat\_cli.py: an \<open>EOF\<close> is reported by the sixth
  line of its value, a \<open>TIMEOUT\<close> as a connection timeout. \<open>a in b\<close> on strings is
  \<open>0 \<le> find b a\<close>.
\<close>

definition cli_exception_handler :: "exn + 'a \<Rightarrow> exn + 'a" where
  "cli_exception_handler result =
     (case result of
        Inl (PexpectEOF v) \<Rightarrow>
          (let lines = split_char nl v
           in if length lines \<le> 5 then Inl IndexError
              else
                let error_message = lines ! 5
                in if 0 \<le> find error_message (str ''Host key verification failed'')
                   then Inl (CustomException ''Device identity verification failed'')
                   else if 0 \<le> find error_message (str ''Authorization failed'')
                   then Inl (CustomException ''Authorization failed'')
                   else if 0 \<le> find error_message (str ''Connection timed out'')
                   then Inl (CustomException ''Connection timeout'')
                   else Inl (CustomException ''Expect error''))
      | Inl PexpectTimeout \<Rightarrow> Inl (CustomException ''Connection timeout'')
      | _ \<Rightarrow> result)"

definition open_cli ::
  "(nat \<Rightarrow> expect_outcome) \<Rightarrow> cli_access \<Rightarrow> cli_world \<Rightarrow> (exn + unit) \<times> cli_world" where
  "open_cli x self w =
     (case open_cli_body x self w of (result, w') \<Rightarrow> (cli_exception_handler result, w'))"


subsection \<open>Notions used in the statements about the CLI session\<close>

text \<open>
  The command line of the password branch and the two lists of patterns it expects.
\<close>

definition ssh_password_command :: "cli_access \<Rightarrow> pystr" where
  "ssh_password_command self =
     str ''ssh -o PubkeyAuthentication=no -l '' @ self_username self @ str '' '' @ self_name self"

definition login_patterns :: "cli_access \<Rightarrow> pystr list" where
  "login_patterns self =
     [self_password_prompt self, str ''Are you sure you want to continue connecting (yes/no)?'',
      str ''Connection refused'']"

definition prompt_patterns :: "cli_access \<Rightarrow> pystr list" where
  "prompt_patterns self = [self_cli_prompt self, self_password_prompt self]"

section \<open>Fleet runner and the backup program (netcat.py, netcat\_backup.py)\<close>

text \<open>
  The parsed command line (\<open>argparse.Namespace\<close>): the four flags and the four selectors, of
  which \<open>argparse\<close> lets exactly one be given.
\<close>

record arguments =
  arg_debug :: bool
  arg_single_process :: bool
  arg_force_backup :: bool
  arg_test_run :: bool
  arg_all :: bool
  arg_group :: "pystr option"
  arg_device :: "pystr list option"
  arg_regexp :: "pystr option"

definition SUPPORTED_DEVICE_TYPES :: "pystr list" where
  "SUPPORTED_DEVICE_TYPES =
     [str ''paloalto'', str ''f5'', str ''cisco_nexus'', str ''cisco_router'', str ''cisco_switch'',
      str ''cisco_asa'', str ''cisco_asa_mc'']"

text \<open>
  What the inventory file holds: it cannot be read (\<open>IOError\<close>), it is no JSON
  (\<open>JSONDecodeError\<close>), or it is a list of entries.
\<close>

datatype info_list_file = Unreadable | Malformed | Entries "device_info list"

definition read_info_list_file :: "info_list_file \<Rightarrow> device_info list" where
  "read_info_list_file file =
     (case file of Unreadable \<Rightarrow> [] | Malformed \<Rightarrow> [] | Entries info_list \<Rightarrow> info_list)"

text \<open>\<open>s.strip(",")\<close>.\<close>

definition strip_char :: "nat \<Rightarrow> pystr \<Rightarrow> pystr" where
  "strip_char c s = rev (dropWhile (\<lambda>x. x = c) (rev (dropWhile (\<lambda>x. x = c) s)))"

text \<open>
  \<open>get_requested_device_name_list\<close>. The regular expressions of the library are the
  parameter \<open>re_search\<close>: \<open>None\<close> for a pattern that raises \<open>re.error\<close>, and otherwise
  the names the pattern is found in.
\<close>

definition requested_by_regexp ::
  "(pystr \<Rightarrow> (pystr \<Rightarrow> bool) option) \<Rightarrow> device_info list \<Rightarrow> arguments \<Rightarrow> pystr list" where
  "requested_by_regexp re_search device_info_list args =
     (case arg_regexp args of
        None \<Rightarrow> []
      | Some regexp \<Rightarrow>
          if regexp = [] then []
          else (case re_search regexp of
                  None \<Rightarrow> []
                | Some found \<Rightarrow>
                    map info_device_name
                      (filter (\<lambda>d. found (info_device_name d)) device_info_list)))"

definition get_requested_device_name_list ::
  "(pystr \<Rightarrow> (pystr \<Rightarrow> bool) option) \<Rightarrow> device_info list \<Rightarrow> arguments \<Rightarrow> pystr list" where
  "get_requested_device_name_list re_search device_info_list args =
     (if arg_all args then map info_device_name device_info_list
      else if (case arg_group args of None \<Rightarrow> False | Some g \<Rightarrow> g \<in> set SUPPORTED_DEVICE_TYPES)
      then map info_device_name
             (filter (\<lambda>d. Some (info_device_type d) = arg_group args) device_info_list)
      else (case arg_device args of
              None \<Rightarrow> requested_by_regexp re_search device_info_list args
            | Some names \<Rightarrow>
                if names \<noteq> []
                then map info_device_name
                       (filter (\<lambda>d. info_device_name d \<in> strip_char 44 ` set names)
                          device_info_list)
                else requested_by_regexp re_search device_info_list args))"

text \<open>
  \<open>execute_data_processing_function\<close>. In single process mode the function is called for
  one item after the other and its first exception ends the loop. Otherwise each item is
  processed by a process of its own, and the results are those of the processes that raised
  nothing and returned a list that is not empty.
\<close>

fun call_each :: "('a \<Rightarrow> exn + 'b list) \<Rightarrow> 'a list \<Rightarrow> exn + 'b list list" where
  "call_each f [] = Inr []"
| "call_each f (x # xs) =
     (case f x of
        Inl e \<Rightarrow> Inl e
      | Inr r \<Rightarrow> ebind (call_each f xs) (\<lambda>rs. Inr (r # rs)))"

definition pool_results :: "('a \<Rightarrow> exn + 'b list) \<Rightarrow> 'a list \<Rightarrow> 'b list list" where
  "pool_results f data_list =
     concat (map (\<lambda>x. case f x of Inl e \<Rightarrow> [] | Inr r \<Rightarrow> if r = [] then [] else [r]) data_list)"

definition execute_data_processing_function ::
  "bool \<Rightarrow> 'a list \<Rightarrow> ('a \<Rightarrow> exn + 'b list) \<Rightarrow> exn + 'b list" where
  "execute_data_processing_function single_process_mode data_list data_processing_function =
     (if data_list = [] then Inr []
      else if single_process_mode
      then ebind (call_each data_processing_function data_list) (\<lambda>results. Inr (concat results))
      else Inr (concat (pool_results data_processing_function data_list)))"

text \<open>
  \<open>save_final_status\<close>: an entry for every device of the inventory whose name is not empty.
\<close>

definition save_final_status ::
  "codec \<Rightarrow> env \<Rightarrow> device_info list \<Rightarrow> int \<Rightarrow> pystr list \<Rightarrow> pystr list \<Rightarrow> world \<Rightarrow>
   (exn + unit) \<times> world" where
  "save_final_status c env device_info_list timestamp successful_device_name_list
     failed_device_name_list w =
     db_write c env DBT_STATUS
       (JobStatus
          \<lparr>snapshot_name = str ''info_status'',
           status_timestamp = timestamp,
           device_info_dict =
             fold (\<lambda>d dict.
                     if info_device_name d \<noteq> []
                     then AList.update (info_device_name d)
                            \<lparr>status_device_type = info_device_type d,
                             status_failed = info_device_name d \<in> set failed_device_name_list,
                             status_successful =
                               info_device_name d \<in> set successful_device_name_list\<rparr>
                            dict
                     else dict)
               device_info_list []\<rparr>)
       w"

text \<open>
  What lies outside the backup program: what \<open>db.create_tables()\<close> does, the inventory file,
  the regular expressions, for each device the storage and the CLI session its job meets, and
  the storage the final status is written to. The job of a device starts from a state of its
  own.
\<close>

record run_env =
  create_tables :: "exn + unit"
  device_info_list_file :: info_list_file
  re_search :: "pystr \<Rightarrow> (pystr \<Rightarrow> bool) option"
  device_env :: "device_info \<Rightarrow> env"
  device_session :: "device_info \<Rightarrow> exn + device_data"
  status_env :: env

definition initial_world :: world where
  "initial_world = \<lparr>put_calls = 0, draws = 0, stored = [], slept = []\<rparr>"

definition device_job :: "codec \<Rightarrow> run_env \<Rightarrow> int \<Rightarrow> arguments \<Rightarrow> device_info \<Rightarrow> exn + pystr list" where
  "device_job c e timestamp args device_info =
     fst (cli_process c (device_env e device_info) (device_session e) device_info timestamp
            (arg_force_backup args) (arg_test_run args) initial_world)"

text \<open>
  \<open>main\<close> of netcat\_backup.py up to the three lists of device names (requested,
  successful, failed), then the whole body, and \<open>main\<close> as decorated. \<open>sys.exit()\<close> is
  \<open>SystemExit None\<close>.
\<close>

definition device_name_lists ::
  "codec \<Rightarrow> run_env \<Rightarrow> int \<Rightarrow> arguments \<Rightarrow>
   exn + (device_info list \<times> pystr list \<times> pystr list \<times> pystr list)" where
  "device_name_lists c e timestamp args =
     ebind (create_tables e) (\<lambda>u.
       let device_info_list = read_info_list_file (device_info_list_file e)
       in if device_info_list = [] then Inl (SystemExit None)
          else
            let requested_device_name_list =
                  sort (get_requested_device_name_list (re_search e) device_info_list args)
            in if requested_device_name_list = [] then Inl (SystemExit None)
               else
                 ebind (execute_data_processing_function (arg_single_process args)
                          (filter (\<lambda>d. info_device_name d \<in> set requested_device_name_list)
                             device_info_list)
                          (device_job c e timestamp args))
                   (\<lambda>names.
                      let successful_device_name_list = sort names;
                          failed_device_name_list =
                            sorted_list_of_set
                              (set requested_device_name_list - set successful_device_name_list)
                      in Inr (device_info_list, requested_device_name_list,
                              successful_device_name_list, failed_device_name_list)))"

definition main_body :: "codec \<Rightarrow> run_env \<Rightarrow> int \<Rightarrow> arguments \<Rightarrow> exn + int" where
  "main_body c e timestamp args =
     ebind (device_name_lists c e timestamp args)
       (\<lambda>(device_info_list, requested_device_name_list, successful_device_name_list,
           failed_device_name_list).
          if \<not> arg_test_run args
          then ebind (fst (save_final_status c (status_env e) device_info_list timestamp
                             successful_device_name_list failed_device_name_list initial_world))
                 (\<lambda>u. Inr 0)
          else Inr 0)"

definition main :: "codec \<Rightarrow> run_env \<Rightarrow> int \<Rightarrow> arguments \<Rightarrow> exn + int" where
  "main c e timestamp args = exception_handler (main_body c e timestamp args)"

text \<open>
  The exit code that the interpreter gives for the result of a script ending in
  \<open>sys.exit(main())\<close>: the value \<open>main\<close> returned, the argument of a \<open>SystemExit\<close> (0 for
  \<open>None\<close>), and 1 for any other exception, which the interpreter reports.
\<close>

definition exit_code :: "exn + int \<Rightarrow> int" where
  "exit_code result =
     (case result of
        Inr n \<Rightarrow> n
      | Inl (SystemExit None) \<Rightarrow> 0
      | Inl (SystemExit (Some n)) \<Rightarrow> n
      | Inl e \<Rightarrow> 1)"

text \<open>
  The script netcat\_backup.py. Its statements at module level run before \<open>main\<close> is
  called, and among them is \<open>from netcat_cli_f5 import F5CliAccess\<close> (line 29). To import
  the module Python compiles netcat\_cli\_f5.py, and line 48 of that file closes, after the
  string of the prompt, a parenthesis that was never opened: the compiler raises
  \<open>SyntaxError\<close>. The modules imported before it are taken to load. After the imports the
  script ends in \<open>sys.exit(main())\<close>.
\<close>

definition import_netcat_cli_f5 :: "exn + unit" where
  "import_netcat_cli_f5 = Inl SyntaxError"

definition netcat_backup :: "codec \<Rightarrow> run_env \<Rightarrow> int \<Rightarrow> arguments \<Rightarrow> exn + int" where
  "netcat_backup c e timestamp args =
     ebind import_netcat_cli_f5 (\<lambda>u. main c e timestamp args)"


subsection \<open>Notions used in the statements about the backup program\<close>

text \<open>
  The sorted list of requested names, the entries of the inventory that are processed, and
  the condition under which the write of the final status cannot fail: it is not attempted,
  or the first \<open>put_item\<close> succeeds.
\<close>

definition requested_names :: "run_env \<Rightarrow> arguments \<Rightarrow> pystr list" where
  "requested_names e args =
     sort (get_requested_device_name_list (re_search e)
             (read_info_list_file (device_info_list_file e)) args)"

definition selected_devices :: "run_env \<Rightarrow> arguments \<Rightarrow> device_info list" where
  "selected_devices e args =
     filter (\<lambda>d. info_device_name d \<in> set (requested_names e args))
       (read_info_list_file (device_info_list_file e))"

definition status_write_succeeds :: "run_env \<Rightarrow> arguments \<Rightarrow> bool" where
  "status_write_succeeds e args \<longleftrightarrow> arg_test_run args \<or> put_item (status_env e) 0 = PutOk"

chapter \<open>Properties\<close>

section \<open>Properties of the artifact codec\<close>

lemma unat_byte: "n < 256 \<Longrightarrow> unat (of_nat n :: byte) = n"
  by (simp add: unat_of_nat)

lemma utf8_decode_1:
  assumes "unat b0 < 0x80"
  shows "utf8_decode (b0 # rest) = ebind (utf8_decode rest) (\<lambda>r. Inr (unat b0 # r))"
  using assms by simp

lemma utf8_decode_2:
  assumes "0xC2 \<le> unat b0" "unat b0 \<le> 0xDF" "0x80 \<le> unat b1" "unat b1 \<le> 0xBF"
  shows "utf8_decode (b0 # b1 # rest) =
         ebind (utf8_decode rest) (\<lambda>r. Inr (((unat b0 - 0xC0) * 64 + (unat b1 - 0x80)) # r))"
  using assms by (simp add: continuation_def Let_def)

lemma utf8_decode_3:
  assumes "0xE0 \<le> unat b0" "unat b0 \<le> 0xEF" "0x80 \<le> unat b1" "unat b1 \<le> 0xBF"
    "0x80 \<le> unat b2" "unat b2 \<le> 0xBF"
    "cp = (unat b0 - 0xE0) * 4096 + (unat b1 - 0x80) * 64 + (unat b2 - 0x80)"
    "0x800 \<le> cp" "\<not> (0xD800 \<le> cp \<and> cp \<le> 0xDFFF)"
  shows "utf8_decode (b0 # b1 # b2 # rest) = ebind (utf8_decode rest) (\<lambda>r. Inr (cp # r))"
proof -
  from assms(1,2) have n: "\<not> unat b0 < 0x80" "\<not> (0xC2 \<le> unat b0 \<and> unat b0 \<le> 0xDF)"
    by simp_all
  show ?thesis
    apply (subst utf8_decode.simps)
    using assms(1-6,8,9) n unfolding assms(7)
    by (simp add: continuation_def Let_def)
qed

lemma utf8_decode_4:
  assumes "0xF0 \<le> unat b0" "unat b0 \<le> 0xF4" "0x80 \<le> unat b1" "unat b1 \<le> 0xBF"
    "0x80 \<le> unat b2" "unat b2 \<le> 0xBF" "0x80 \<le> unat b3" "unat b3 \<le> 0xBF"
    "cp = (unat b0 - 0xF0) * 262144 + (unat b1 - 0x80) * 4096 + (unat b2 - 0x80) * 64 + (unat b3 - 0x80)"
    "0x10000 \<le> cp" "cp \<le> 0x10FFFF"
  shows "utf8_decode (b0 # b1 # b2 # b3 # rest) = ebind (utf8_decode rest) (\<lambda>r. Inr (cp # r))"
proof -
  from assms(1,2) have n: "\<not> unat b0 < 0x80" "\<not> (0xC2 \<le> unat b0 \<and> unat b0 \<le> 0xDF)"
     "\<not> (0xE0 \<le> unat b0 \<and> unat b0 \<le> 0xEF)"
    by simp_all
  show ?thesis
    apply (subst utf8_decode.simps)
    using assms(1-8,10,11) n unfolding assms(9)
    by (simp add: continuation_def Let_def)
qed

lemma recompose_2: "(c::nat) div 64 * 64 + c mod 64 = c"
  by simp

lemma mod_4096: "(c::nat) mod 4096 = c div 64 mod 64 * 64 + c mod 64"
  using mod_mult2_eq [of c 64 64] by simp

lemma recompose_3: "(c::nat) div 4096 * 4096 + c div 64 mod 64 * 64 + c mod 64 = c"
  using div_mult_mod_eq [of c 4096] mod_4096 [of c] by linarith

lemma mod_262144: "(c::nat) mod 262144 = c div 4096 mod 64 * 4096 + c mod 4096"
  using mod_mult2_eq [of c 4096 64] by simp

lemma recompose_4:
  "(c::nat) div 262144 * 262144 + c div 4096 mod 64 * 4096 + c div 64 mod 64 * 64 + c mod 64 = c"
  using div_mult_mod_eq [of c 262144] mod_262144 [of c] mod_4096 [of c] by linarith

lemma utf8_decode_encode_char:
  assumes "utf8_encode_char c = Some bs"
  shows "utf8_decode (bs @ rest) = ebind (utf8_decode rest) (\<lambda>r. Inr (c # r))"
proof -
  consider (one) "c < 0x80"
    | (two) "0x80 \<le> c" "c < 0x800"
    | (three) "0x800 \<le> c" "c < 0x10000" "\<not> (0xD800 \<le> c \<and> c \<le> 0xDFFF)"
    | (four) "0x10000 \<le> c" "c < 0x110000"
    | (none) "(0xD800 \<le> c \<and> c \<le> 0xDFFF) \<or> 0x110000 \<le> c"
    by linarith
  then show ?thesis
  proof cases
    case one
    define b0 :: byte where "b0 = of_nat c"
    have u0: "unat b0 = c" unfolding b0_def using one by (intro unat_byte) simp
    have bs: "bs = [b0]"
      using assms one by (simp add: utf8_encode_char_def b0_def)
    show ?thesis
      unfolding bs using utf8_decode_1 [of b0 rest] one by (simp add: u0)
  next
    case two
    define b0 :: byte where "b0 = of_nat (0xC0 + c div 64)"
    define b1 :: byte where "b1 = of_nat (0x80 + c mod 64)"
    have u0: "unat b0 = 0xC0 + c div 64" unfolding b0_def using two by (intro unat_byte) simp
    have u1: "unat b1 = 0x80 + c mod 64" unfolding b1_def by (intro unat_byte) simp
    have bs: "bs = [b0, b1]"
      using assms two by (simp add: utf8_encode_char_def b0_def b1_def)
    have "utf8_decode (b0 # b1 # rest) =
         ebind (utf8_decode rest) (\<lambda>r. Inr (((unat b0 - 0xC0) * 64 + (unat b1 - 0x80)) # r))"
      by (rule utf8_decode_2) (use two in \<open>simp_all add: u0 u1\<close>)
    then show ?thesis
      unfolding bs by (simp add: u0 u1)
  next
    case three
    define b0 :: byte where "b0 = of_nat (0xE0 + c div 4096)"
    define b1 :: byte where "b1 = of_nat (0x80 + c div 64 mod 64)"
    define b2 :: byte where "b2 = of_nat (0x80 + c mod 64)"
    have u0: "unat b0 = 0xE0 + c div 4096" unfolding b0_def using three by (intro unat_byte) simp
    have u1: "unat b1 = 0x80 + c div 64 mod 64" unfolding b1_def by (intro unat_byte) simp
    have u2: "unat b2 = 0x80 + c mod 64" unfolding b2_def by (intro unat_byte) simp
    have bs: "bs = [b0, b1, b2]"
      using assms three by (simp add: utf8_encode_char_def b0_def b1_def b2_def)
    have cp: "c = (unat b0 - 0xE0) * 4096 + (unat b1 - 0x80) * 64 + (unat b2 - 0x80)"
      by (simp add: u0 u1 u2 recompose_3)
    have "utf8_decode (b0 # b1 # b2 # rest) = ebind (utf8_decode rest) (\<lambda>r. Inr (c # r))"
      by (rule utf8_decode_3 [OF _ _ _ _ _ _ cp]) (use three in \<open>simp_all add: u0 u1 u2\<close>)
    then show ?thesis
      unfolding bs by simp
  next
    case four
    define b0 :: byte where "b0 = of_nat (0xF0 + c div 262144)"
    define b1 :: byte where "b1 = of_nat (0x80 + c div 4096 mod 64)"
    define b2 :: byte where "b2 = of_nat (0x80 + c div 64 mod 64)"
    define b3 :: byte where "b3 = of_nat (0x80 + c mod 64)"
    have u0: "unat b0 = 0xF0 + c div 262144" unfolding b0_def using four by (intro unat_byte) simp
    have u1: "unat b1 = 0x80 + c div 4096 mod 64" unfolding b1_def by (intro unat_byte) simp
    have u2: "unat b2 = 0x80 + c div 64 mod 64" unfolding b2_def by (intro unat_byte) simp
    have u3: "unat b3 = 0x80 + c mod 64" unfolding b3_def by (intro unat_byte) simp
    have bs: "bs = [b0, b1, b2, b3]"
      using assms four by (simp add: utf8_encode_char_def b0_def b1_def b2_def b3_def)
    have cp: "c = (unat b0 - 0xF0) * 262144 + (unat b1 - 0x80) * 4096 + (unat b2 - 0x80) * 64 + (unat b3 - 0x80)"
      by (simp add: u0 u1 u2 u3 recompose_4)
    have "utf8_decode (b0 # b1 # b2 # b3 # rest) = ebind (utf8_decode rest) (\<lambda>r. Inr (c # r))"
      by (rule utf8_decode_4 [OF _ _ _ _ _ _ _ _ cp]) (use four in \<open>simp_all add: u0 u1 u2 u3\<close>)
    then show ?thesis
      unfolding bs by simp
  next
    case none
    with assms show ?thesis
      by (auto simp: utf8_encode_char_def split: if_splits)
  qed
qed

lemma utf8_encode_char_scalar: "unicode_scalar c \<Longrightarrow> \<exists>bs. utf8_encode_char c = Some bs"
  by (auto simp: unicode_scalar_def utf8_encode_char_def)

lemma utf8_encode_total: "list_all unicode_scalar s \<Longrightarrow> \<exists>bs. utf8_encode s = Inr bs"
proof (induction s)
  case Nil
  show ?case by simp
next
  case (Cons c cs)
  then obtain bs where bs: "utf8_encode_char c = Some bs"
    using utf8_encode_char_scalar by auto
  from Cons obtain rest where "utf8_encode cs = Inr rest" by auto
  with bs show ?case by (simp add: ebind_def)
qed

lemma utf8_decode_encode: "utf8_encode s = Inr bs \<Longrightarrow> utf8_decode bs = Inr s"
proof (induction s arbitrary: bs)
  case Nil
  then show ?case by simp
next
  case (Cons c cs)
  from Cons.prems obtain b rest where
    b: "utf8_encode_char c = Some b" and rest: "utf8_encode cs = Inr rest" and bs: "bs = b @ rest"
    by (auto simp: ebind_def split: option.splits sum.splits)
  from Cons.IH [OF rest] have "utf8_decode rest = Inr cs" .
  with utf8_decode_encode_char [OF b, of rest] show ?case
    by (simp add: bs ebind_def)
qed

lemma utf8_decode_ascii:
  "list_all (\<lambda>b. unat b < 0x80) bs \<Longrightarrow> utf8_decode bs = Inr (map unat bs)"
  by (induction bs) (simp_all add: ebind_def)

lemma unat_hexdigit:
  "n < 16 \<Longrightarrow> unat (hexdigit n) = (if n < 10 then 0x30 + n else 0x57 + n)"
proof (cases "n < 10")
  case True
  have "unat (of_nat (0x30 + n) :: byte) = 0x30 + n"
    by (rule unat_byte) (use True in simp)
  with True show ?thesis by (simp only: hexdigit_def if_True)
next
  case False
  assume "n < 16"
  then have "unat (of_nat (0x57 + n) :: byte) = 0x57 + n"
    by (intro unat_byte) simp
  with False show ?thesis by (simp only: hexdigit_def if_False)
qed

lemma hexval_hexdigit: "n < 16 \<Longrightarrow> hexval (unat (hexdigit n)) = Some n"
  by (simp add: unat_hexdigit hexval_def)

lemma hexchar_hexdigit: "n < 16 \<Longrightarrow> hexchar (unat (hexdigit n))"
  by (simp add: unat_hexdigit hexchar_def)

lemma byte_recompose: "of_nat (16 * (unat b div 16) + unat b mod 16) = (b :: byte)"
  by simp

lemma byte_nibbles: "unat (b :: byte) div 16 < 16" "unat b mod 16 < 16"
proof -
  have "unat b < 256" using unsigned_less [of b, where 'a = nat] by simp
  then show "unat b div 16 < 16" by simp
  show "unat b mod 16 < 16" by simp
qed

lemma unhex_pairs_hexlify: "unhex_pairs (map unat (hexlify bs)) = Inr bs"
  by (induction bs)
     (simp_all add: hexlify_def hexval_hexdigit byte_nibbles ebind_def)

lemma hexchar_hexlify: "list_all hexchar (map unat (hexlify bs))"
  by (induction bs) (simp_all add: hexlify_def hexchar_hexdigit byte_nibbles)

lemma length_hexlify: "length (hexlify bs) = 2 * length bs"
  by (induction bs) (simp_all add: hexlify_def)

lemma hexchar_cases:
  assumes "hexchar c"
  shows "c \<in> {48, 49, 50, 51, 52, 53, 54, 55, 56, 57, 97, 98, 99, 100, 101, 102}"
proof -
  from assms have "(48 \<le> c \<and> c \<le> 57) \<or> (97 \<le> c \<and> c \<le> 102)"
    by (simp add: hexchar_def)
  then show ?thesis by (simp only: insert_iff empty_iff) arith
qed

lemma to_letters_eq:
  "to_letters = [(49, 103), (50, 104), (51, 105), (52, 106), (53, 107), (54, 108), (55, 109),
                 (56, 110), (57, 111), (48, 112)]"
  by (simp add: to_letters_def maketrans_def)

lemma to_digits_eq:
  "to_digits = [(103, 49), (104, 50), (105, 51), (106, 52), (107, 53), (108, 54), (109, 55),
                (110, 56), (111, 57), (112, 48)]"
  by (simp add: to_digits_def maketrans_def)

lemma translate_char_roundtrip:
  assumes "hexchar c"
  shows "translate to_digits (translate to_letters [c]) = [c]"
  using hexchar_cases [OF assms]
  by (auto simp: translate_def to_letters_eq to_digits_eq)

lemma translate_char_letter:
  assumes "hexchar c"
  shows "list_all (\<lambda>c. 0x61 \<le> c \<and> c \<le> 0x70) (translate to_letters [c])"
  using hexchar_cases [OF assms]
  by (auto simp: translate_def to_letters_eq)

lemma translate_Cons: "translate t (c # cs) = translate t [c] @ translate t cs"
  by (simp add: translate_def)

lemma translate_roundtrip:
  "list_all hexchar hs \<Longrightarrow> translate to_digits (translate to_letters hs) = hs"
proof (induction hs)
  case Nil
  show ?case by (simp add: translate_def)
next
  case (Cons c cs)
  then have c: "translate to_digits (translate to_letters [c]) = [c]"
    and cs: "translate to_digits (translate to_letters cs) = cs"
    by (simp_all add: translate_char_roundtrip)
  have "translate to_digits (translate to_letters (c # cs)) =
        translate to_digits (translate to_letters [c]) @ translate to_digits (translate to_letters cs)"
    by (simp add: translate_def)
  with c cs show ?case by simp
qed

lemma translate_letters:
  "list_all hexchar hs \<Longrightarrow> list_all (\<lambda>c. 0x61 \<le> c \<and> c \<le> 0x70) (translate to_letters hs)"
proof (induction hs)
  case Nil
  show ?case by (simp add: translate_def)
next
  case (Cons c cs)
  then have "list_all (\<lambda>c. 0x61 \<le> c \<and> c \<le> 0x70) (translate to_letters [c])"
    and "list_all (\<lambda>c. 0x61 \<le> c \<and> c \<le> 0x70) (translate to_letters cs)"
    by (simp_all add: translate_char_letter)
  then show ?case
    by (subst translate_Cons) simp
qed

lemma unhexlify_hexlify: "unhexlify (map unat (hexlify bs)) = Inr bs"
proof -
  have "list_all hexchar (map unat (hexlify bs))" by (rule hexchar_hexlify)
  then have "list_all (\<lambda>c. c < 0x80) (map unat (hexlify bs))"
    by (auto simp: list_all_iff hexchar_def)
  then have "\<not> list_ex (\<lambda>c. 0x80 \<le> c) (map unat (hexlify bs))"
    by (auto simp: list_all_iff list_ex_iff)
  then show ?thesis
    by (simp add: unhexlify_def length_hexlify unhex_pairs_hexlify)
qed

lemma utf8_decode_hexlify: "utf8_decode (hexlify bs) = Inr (map unat (hexlify bs))"
proof -
  have "list_all hexchar (map unat (hexlify bs))" by (rule hexchar_hexlify)
  then have "list_all (\<lambda>b. unat b < 0x80) (hexlify bs)"
    by (auto simp: list_all_iff hexchar_def)
  then show ?thesis by (rule utf8_decode_ascii)
qed

lemma encode_command_eq:
  assumes "utf8_encode s = Inr bs"
  shows "encode_command s = Inr (translate to_letters (map unat (hexlify bs)))"
  using assms by (simp add: encode_command_def ebind_def utf8_decode_hexlify to_letters_def)

lemma command_key_roundtrip:
  assumes "utf8_encode s = Inr bs"
  shows "decode_command (translate to_letters (map unat (hexlify bs))) = Inr s"
proof -
  let ?hs = "map unat (hexlify bs)"
  let ?e = "translate to_letters ?hs"
  have hex: "list_all hexchar ?hs" by (rule hexchar_hexlify)
  have "decode_command ?e = ebind (unhexlify (translate to_digits ?e)) utf8_decode"
    by (simp add: decode_command_def to_digits_def)
  also have "translate to_digits ?e = ?hs" by (rule translate_roundtrip [OF hex])
  also have "ebind (unhexlify ?hs) utf8_decode = utf8_decode bs"
    by (simp add: unhexlify_hexlify ebind_def)
  also have "\<dots> = Inr s" by (rule utf8_decode_encode [OF assms])
  finally show ?thesis .
qed

text \<open>
  Claim C4. For every string \<open>s\<close> of UTF-8 text, \<open>encode_command\<close> returns a key \<open>e\<close>
  from which \<open>decode_command\<close> returns \<open>s\<close>, and every character of \<open>e\<close> is one of the
  letters \<open>a\<close> to \<open>p\<close>: the key holds no digit and no punctuation.
\<close>

theorem decode_encode_command:
  assumes "list_all unicode_scalar s"
  shows "\<exists>e. encode_command s = Inr e \<and> decode_command e = Inr s \<and>
             list_all (\<lambda>c. 0x61 \<le> c \<and> c \<le> 0x70) e"
proof -
  from utf8_encode_total [OF assms] obtain bs where bs: "utf8_encode s = Inr bs" ..
  have "encode_command s = Inr (translate to_letters (map unat (hexlify bs)))"
    by (rule encode_command_eq [OF bs])
  moreover have "decode_command (translate to_letters (map unat (hexlify bs))) = Inr s"
    by (rule command_key_roundtrip [OF bs])
  moreover have "list_all (\<lambda>c. 0x61 \<le> c \<and> c \<le> 0x70) (translate to_letters (map unat (hexlify bs)))"
    by (rule translate_letters [OF hexchar_hexlify])
  ultimately show ?thesis by blast
qed

text \<open>The command \<open>s\<close> followed by a euro sign has the key \<open>miehnhac\<close>.\<close>

theorem decode_encode_command_witness:
  "list_all unicode_scalar [0x73, 0x20AC] \<and>
   encode_command [0x73, 0x20AC] = Inr (str ''miehnhac'') \<and>
   decode_command (str ''miehnhac'') = Inr [0x73, 0x20AC]"
  using decode_encode_command [of "[0x73, 0x20AC]"]
  by (simp add: unicode_scalar_def encode_command_def decode_command_def ebind_def
        utf8_encode_char_def hexlify_def hexdigit_def unhexlify_def hexval_def translate_def
        maketrans_def continuation_def)

section \<open>Properties of the compression of device data\<close>

lemma update_fresh: "k \<notin> fst ` set acc \<Longrightarrow> AList.update k v acc = acc @ [(k, v)]"
  by (induction acc) auto

lemma update_twice: "AList.update k v (AList.update k w acc) = AList.update k v acc"
  by (induction acc) auto

lemma update_snoc:
  "k \<notin> fst ` set acc \<Longrightarrow> AList.update k v (acc @ [(k, w)]) = acc @ [(k, v)]"
  by (induction acc) auto

lemma encode_command_ckey:
  assumes "list_all unicode_scalar k"
  shows "encode_command k = Inr (ckey k)" "decode_command (ckey k) = Inr k"
proof -
  from utf8_encode_total [OF assms] obtain bs where bs: "utf8_encode k = Inr bs" ..
  from encode_command_eq [OF bs] show "encode_command k = Inr (ckey k)"
    by (simp add: ckey_def)
  with encode_command_eq [OF bs] command_key_roundtrip [OF bs]
  show "decode_command (ckey k) = Inr k" by simp
qed

lemma ckey_inj:
  assumes "list_all unicode_scalar k" "list_all unicode_scalar k'" "ckey k = ckey k'"
  shows "k = k'"
proof -
  have "Inr k = decode_command (ckey k)"
    using encode_command_ckey(2) [OF assms(1)] by (rule sym)
  also have "\<dots> = decode_command (ckey k')"
    by (rule arg_cong [OF assms(3)])
  also have "\<dots> = Inr k'"
    by (rule encode_command_ckey(2) [OF assms(2)])
  finally show ?thesis by (simp only: sum.inject)
qed

lemma compress_output_cblob:
  assumes "codec_roundtrip c" "list_all unicode_scalar v"
  shows "compress_output c v = Inr (cblob c v)" "decompress_output c (cblob c v) = Inr v"
proof -
  from utf8_encode_total [OF assms(2)] obtain raw where raw: "utf8_encode v = Inr raw" ..
  from assms(1) have "ebind (utf8_decode (b85encode c (compress c raw))) (b85decode c) = Inr (compress c raw)"
    by (simp add: codec_roundtrip_def)
  then obtain t where t: "utf8_decode (b85encode c (compress c raw)) = Inr t"
    and d: "b85decode c t = Inr (compress c raw)"
    by (auto simp: ebind_def split: sum.splits)
  from raw t have co: "compress_output c v = Inr t"
    by (simp add: compress_output_def ebind_def)
  then show "compress_output c v = Inr (cblob c v)" by (simp add: cblob_def)
  from co have "cblob c v = t" by (simp add: cblob_def)
  moreover from assms(1) have "decompress c (compress c raw) = Inr raw"
    by (simp add: codec_roundtrip_def)
  ultimately show "decompress_output c (cblob c v) = Inr v"
    using d utf8_decode_encode [OF raw] by (simp add: decompress_output_def ebind_def)
qed


lemma compress_commands_eq:
  assumes "codec_roundtrip c" "well_formed_commands cmds"
    "fst ` set acc \<inter> ckey ` fst ` set cmds = {}"
  shows "compress_commands c cmds acc = Inr (acc @ map (\<lambda>(k, v). (ckey k, cblob c v)) cmds)"
  using assms(2,3)
proof (induction cmds arbitrary: acc)
  case Nil
  show ?case by simp
next
  case (Cons p cmds)
  obtain k v where p: "p = (k, v)" by (cases p)
  from Cons.prems(1) have k: "list_all unicode_scalar k" and v: "list_all unicode_scalar v"
    and wf: "well_formed_commands cmds" and kn: "k \<notin> fst ` set cmds"
    and ks: "\<forall>k' \<in> fst ` set cmds. list_all unicode_scalar k'"
    by (auto simp: well_formed_commands_def p list_all_iff)
  from Cons.prems(2) have fresh: "ckey k \<notin> fst ` set acc"
    by (auto simp: p)
  have "fst ` set (acc @ [(ckey k, cblob c v)]) \<inter> ckey ` fst ` set cmds = {}"
  proof -
    have "ckey k \<notin> ckey ` fst ` set cmds"
    proof
      assume "ckey k \<in> ckey ` fst ` set cmds"
      then obtain k' where k': "k' \<in> fst ` set cmds" "ckey k = ckey k'" by auto
      with ks have "list_all unicode_scalar k'" by blast
      from ckey_inj [OF k this k'(2)] k'(1) kn show False by simp
    qed
    with Cons.prems(2) show ?thesis by (auto simp: p)
  qed
  from Cons.IH [OF wf this]
  show ?case
    by (simp add: p compress_output_cblob(1) [OF assms(1) v] encode_command_ckey(1) [OF k]
          ebind_def update_fresh [OF fresh])
qed

lemma decompress_commands_eq:
  assumes "codec_roundtrip c" "well_formed_commands cmds"
    "fst ` set acc \<inter> fst ` set cmds = {}"
  shows "decompress_commands c (map (\<lambda>(k, v). (ckey k, cblob c v)) cmds) acc = Inr (acc @ cmds)"
  using assms(2,3)
proof (induction cmds arbitrary: acc)
  case Nil
  show ?case by simp
next
  case (Cons p cmds)
  obtain k v where p: "p = (k, v)" by (cases p)
  from Cons.prems(1) have k: "list_all unicode_scalar k" and v: "list_all unicode_scalar v"
    and wf: "well_formed_commands cmds" and kn: "k \<notin> fst ` set cmds"
    by (auto simp: well_formed_commands_def p list_all_iff)
  from Cons.prems(2) have fresh: "k \<notin> fst ` set acc"
    by (auto simp: p)
  from Cons.prems(2) kn have "fst ` set (acc @ [(k, v)]) \<inter> fst ` set cmds = {}"
    by (auto simp: p)
  from Cons.IH [OF wf this]
  show ?case
    by (simp add: p compress_output_cblob(2) [OF assms(1) v] encode_command_ckey(2) [OF k]
          ebind_def update_fresh [OF fresh])
qed

lemma commands_roundtrip:
  assumes "codec_roundtrip c" "well_formed_commands cmds"
  shows "\<exists>z. compress_commands c cmds [] = Inr z \<and> decompress_commands c z [] = Inr cmds"
  using compress_commands_eq [OF assms, of "[]"] decompress_commands_eq [OF assms, of "[]"]
  by simp


lemma compress_formats_eq:
  assumes "codec_roundtrip c"
    "list_all (\<lambda>(format_name, commands). well_formed_commands commands) fs"
    "distinct (map fst fs)" "fst ` set acc \<inter> fst ` set fs = {}"
  shows "compress_formats c fs acc =
         Inr (acc @ map (\<lambda>(f, cmds). (f, map (\<lambda>(k, v). (ckey k, cblob c v)) cmds)) fs)"
  using assms(2-4)
proof (induction fs arbitrary: acc)
  case Nil
  show ?case by simp
next
  case (Cons p fs)
  obtain f cmds where p: "p = (f, cmds)" by (cases p)
  from Cons.prems have wf: "well_formed_commands cmds"
    and rest: "list_all (\<lambda>(format_name, commands). well_formed_commands commands) fs"
    and d: "distinct (map fst fs)" and fn: "f \<notin> fst ` set fs" and fresh: "f \<notin> fst ` set acc"
    by (auto simp: p)
  let ?z = "map (\<lambda>(k, v). (ckey k, cblob c v)) cmds"
  have cc: "compress_commands c cmds [] = Inr ?z"
    using compress_commands_eq [OF assms(1) wf, of "[]"] by simp
  from Cons.prems(3) fn have "fst ` set (acc @ [(f, ?z)]) \<inter> fst ` set fs = {}"
    by (auto simp: p)
  from Cons.IH [OF rest d this]
  show ?case
    by (simp add: p cc ebind_def update_fresh [OF fresh] update_snoc [OF fresh])
qed

lemma decompress_formats_eq:
  assumes "codec_roundtrip c"
    "list_all (\<lambda>(format_name, commands). well_formed_commands commands) fs"
    "distinct (map fst fs)" "fst ` set acc \<inter> fst ` set fs = {}"
  shows "decompress_formats c
           (map (\<lambda>(f, cmds). (f, map (\<lambda>(k, v). (ckey k, cblob c v)) cmds)) fs) acc =
         Inr (acc @ fs)"
  using assms(2-4)
proof (induction fs arbitrary: acc)
  case Nil
  show ?case by simp
next
  case (Cons p fs)
  obtain f cmds where p: "p = (f, cmds)" by (cases p)
  from Cons.prems have wf: "well_formed_commands cmds"
    and rest: "list_all (\<lambda>(format_name, commands). well_formed_commands commands) fs"
    and d: "distinct (map fst fs)" and fn: "f \<notin> fst ` set fs" and fresh: "f \<notin> fst ` set acc"
    by (auto simp: p)
  have dc: "decompress_commands c (map (\<lambda>(k, v). (ckey k, cblob c v)) cmds) [] = Inr cmds"
    using decompress_commands_eq [OF assms(1) wf, of "[]"] by simp
  from Cons.prems(3) fn have "fst ` set (acc @ [(f, cmds)]) \<inter> fst ` set fs = {}"
    by (auto simp: p)
  from Cons.IH [OF rest d this]
  show ?case
    by (simp add: p dc ebind_def update_fresh [OF fresh] update_snoc [OF fresh])
qed

text \<open>
  Claim C3. For every well-formed snapshot, and a compressor and a base-85 encoder that
  meet their contract, \<open>compress_device_data\<close> returns a document from which
  \<open>decompress_device_data\<close> returns the snapshot itself: the same timestamp, device name
  and type, the same formats and commands in the same order, and every output string
  unchanged.
\<close>

theorem decompress_compress_device_data:
  assumes "codec_roundtrip c" "well_formed_snapshot d"
  shows "\<exists>z. compress_device_data c (Some d) = Inr (Some z) \<and>
             decompress_device_data c (Some z) = Inr (Some d)"
proof -
  from assms(2) have wf: "list_all (\<lambda>(format_name, commands). well_formed_commands commands) (output_formats d)"
    and dist: "distinct (map fst (output_formats d))"
    by (simp_all add: well_formed_snapshot_def)
  let ?fs = "map (\<lambda>(f, cmds). (f, map (\<lambda>(k, v). (ckey k, cblob c v)) cmds)) (output_formats d)"
  let ?z = "\<lparr>snapshot_timestamp = snapshot_timestamp d, device_name = device_name d,
             device_type = device_type d, output_formats = ?fs\<rparr>"
  have "compress_formats c (output_formats d) [] = Inr ?fs"
    using compress_formats_eq [OF assms(1) wf dist, of "[]"] by simp
  then have a: "compress_device_data c (Some d) = Inr (Some ?z)"
    by (simp add: compress_device_data_def ebind_def)
  have "decompress_formats c ?fs [] = Inr (output_formats d)"
    using decompress_formats_eq [OF assms(1) wf dist, of "[]"] by simp
  then have b: "decompress_device_data c (Some ?z) = Inr (Some d)"
    by (simp add: decompress_device_data_def ebind_def)
  from a b show ?thesis by blast
qed


text \<open>
  The contract and the theorem at a concrete codec (reversal for the compressor, hexadecimal
  for the base-85 text) and a snapshot of two formats.
\<close>

theorem decompress_compress_device_data_witness:
  "codec_roundtrip \<lparr>compress = rev, decompress = (\<lambda>z. Inr (rev z)),
                    b85encode = hexlify, b85decode = unhexlify\<rparr> \<and>
   well_formed_snapshot
     \<lparr>snapshot_timestamp = 1600000000, device_name = str ''r1'', device_type = str ''cisco_router'',
      output_formats = [(str ''backup_running'', [(str ''show run'', str ''hostname r1'' @ [nl])]),
                        (str ''info'', [(str ''show clock'', str ''10:00'' @ [nl])])]\<rparr> \<and>
   ebind (compress_device_data
            \<lparr>compress = rev, decompress = (\<lambda>z. Inr (rev z)),
             b85encode = hexlify, b85decode = unhexlify\<rparr>
            (Some \<lparr>snapshot_timestamp = 1600000000, device_name = str ''r1'',
                   device_type = str ''cisco_router'',
                   output_formats = [(str ''backup_running'', [(str ''show run'', str ''hostname r1'' @ [nl])]),
                                     (str ''info'', [(str ''show clock'', str ''10:00'' @ [nl])])]\<rparr>))
     (decompress_device_data
        \<lparr>compress = rev, decompress = (\<lambda>z. Inr (rev z)),
         b85encode = hexlify, b85decode = unhexlify\<rparr>) =
   Inr (Some \<lparr>snapshot_timestamp = 1600000000, device_name = str ''r1'',
              device_type = str ''cisco_router'',
              output_formats = [(str ''backup_running'', [(str ''show run'', str ''hostname r1'' @ [nl])]),
                                (str ''info'', [(str ''show clock'', str ''10:00'' @ [nl])])]\<rparr>)"
proof -
  let ?C = "\<lparr>compress = rev, decompress = (\<lambda>z. Inr (rev z)),
             b85encode = hexlify, b85decode = unhexlify\<rparr>"
  let ?D = "\<lparr>snapshot_timestamp = 1600000000, device_name = str ''r1'',
              device_type = str ''cisco_router'',
              output_formats = [(str ''backup_running'', [(str ''show run'', str ''hostname r1'' @ [nl])]),
                                (str ''info'', [(str ''show clock'', str ''10:00'' @ [nl])])]\<rparr>"
  have c: "codec_roundtrip ?C"
    by (simp add: codec_roundtrip_def utf8_decode_hexlify unhexlify_hexlify ebind_def)
  have d: "well_formed_snapshot ?D"
    by (simp add: well_formed_snapshot_def well_formed_commands_def unicode_scalar_def nl_def)
  from decompress_compress_device_data [OF c d]
  have "ebind (compress_device_data ?C (Some ?D)) (decompress_device_data ?C) = Inr (Some ?D)"
    by (auto simp: ebind_def)
  with c d show ?thesis by simp
qed

section \<open>Properties of the change detector\<close>

lemma exclusion_found_sym: "exclusion_found a b = exclusion_found b a"
  by (auto simp: exclusion_found_def list_ex_iff)

lemma compare_lines_iff:
  "compare_lines ps \<longleftrightarrow> (\<forall>(a, b) \<in> set ps. a = b \<or> exclusion_found a b)"
  by (induction ps rule: compare_lines.induct) auto

lemma set_zip_swap: "set (zip ys xs) = (\<lambda>(a, b). (b, a)) ` set (zip xs ys)"
  by (auto simp: set_zip image_iff)

lemma compare_lines_zip_sym: "compare_lines (zip xs ys) = compare_lines (zip ys xs)"
  unfolding compare_lines_iff set_zip_swap [of ys xs]
  using exclusion_found_sym by fastforce

lemma find_from_nonneg: "0 \<le> i \<Longrightarrow> 0 \<le> find_from i s sub \<longleftrightarrow> sublist sub s"
proof (induction s arbitrary: i)
  case Nil
  then show ?case by simp
next
  case (Cons c cs)
  have pre: "take (length sub) (c # cs) = sub \<longleftrightarrow> prefix sub (c # cs)"
    by (metis prefix_def append_eq_conv_conj append_take_drop_id)
  from Cons.prems have "0 \<le> i + 1" by simp
  then have "0 \<le> find_from (i + 1) cs sub \<longleftrightarrow> sublist sub cs"
    by (rule Cons.IH)
  with Cons.prems pre show ?case
    by (simp add: sublist_Cons_right)
qed

lemma find_nonneg: "0 \<le> find s sub \<longleftrightarrow> sublist sub s"
  by (simp add: find_def find_from_nonneg)

lemma exclusion_found_volatile: "exclusion_found a b \<longleftrightarrow> volatile a \<or> volatile b"
  by (auto simp: exclusion_found_def volatile_def list_ex_iff find_nonneg)

lemma compare_lines_list_all:
  "compare_lines ps = list_all (\<lambda>(x, y). x = y \<or> volatile x \<or> volatile y) ps"
  by (induction ps rule: compare_lines.induct) (auto simp: exclusion_found_volatile)

lemma compare_command_outputs_equivalent:
  "compare_command_outputs a b = equivalent_outputs a b"
  by (auto simp: compare_command_outputs_def equivalent_outputs_def Let_def compare_lines_list_all)

lemma scan_commands_iff:
  "scan_commands previous_commands commands detected \<longleftrightarrow>
     detected \<or>
     list_ex (\<lambda>(command, output).
                \<not> equivalent_outputs output (dict_get previous_commands command []))
       commands"
  by (induction previous_commands commands detected rule: scan_commands.induct)
     (simp_all add: compare_command_outputs_equivalent)

lemma scan_formats_iff:
  "scan_formats previous_formats fs detected \<longleftrightarrow>
     detected \<or>
     list_ex (\<lambda>(format_key, commands).
                list_ex (\<lambda>(command, output).
                           \<not> equivalent_outputs output
                                (dict_get (dict_get previous_formats format_key []) command []))
                  commands) fs"
  by (induction previous_formats fs detected rule: scan_formats.induct)
     (simp_all add: scan_commands_iff)

lemma list_ex_filter: "list_ex P (filter Q xs) = list_ex (\<lambda>x. Q x \<and> P x) xs"
  by (induction xs) auto

text \<open>
  Claim C10. \<open>compare_command_outputs\<close> is symmetric: swapping the two outputs never
  changes its verdict.
\<close>

theorem compare_command_outputs_symmetric:
  "compare_command_outputs a b = compare_command_outputs b a"
  unfolding compare_command_outputs_def Let_def
  using compare_lines_zip_sym [of "split_char nl a" "split_char nl b"] by auto

text \<open>
  Claim C2 (as amended). \<open>detect_config_change\<close> reports a change if and only if the latest
  previous backup has no output formats (in particular when the device has no previous
  backup), or some command of some format of the current snapshot whose name begins with
  \<open>backup\<close> has an output that is not equivalent to the previous one (the empty string
  when the previous backup has no such format or command). Two outputs are equivalent when
  they have the same number of lines and, in every pair of corresponding lines that differ,
  one of the two contains a volatile fragment.
\<close>

theorem detect_config_change_iff:
  "detect_config_change latest_backup device_info \<longleftrightarrow>
     previous_formats_of latest_backup = [] \<or> section_differs latest_backup device_info"
proof (cases "previous_formats_of latest_backup = []")
  case True
  then show ?thesis by (simp add: detect_config_change_def)
next
  case False
  have "section_differs latest_backup device_info \<longleftrightarrow>
        list_ex (\<lambda>(format_key, commands).
                list_ex (\<lambda>(command, output).
                           \<not> equivalent_outputs output
                                (dict_get (dict_get (previous_formats_of latest_backup) format_key []) command []))
                  commands) (filter (\<lambda>(format_key, commands). startswith format_key (str ''backup''))
                   (output_formats device_info))"
    unfolding section_differs_def previous_output_def list_ex_filter
    by (rule arg_cong [where f = "\<lambda>P. list_ex P (output_formats device_info)"]) auto
  with False show ?thesis
    by (simp add: detect_config_change_def scan_formats_iff del: list.map)
qed

text \<open>
  The characterisation at a concrete device: a backup that differs from the previous one
  only in its \<open>!Time:\<close> line is no change, a different \<open>hostname\<close> line is one.
\<close>

theorem detect_config_change_iff_witness:
  "previous_formats_of
      (Some \<lparr>snapshot_timestamp = 1, device_name = str ''r1'', device_type = str ''cisco_router'',
             output_formats = [(str ''backup_running'',
                                [(str ''show clock'', str ''!Time: 10:00'' @ [nl] @ str ''hostname r1'' @ [nl])])]\<rparr>) \<noteq> [] \<and>
   \<not> detect_config_change
      (Some \<lparr>snapshot_timestamp = 1, device_name = str ''r1'', device_type = str ''cisco_router'',
             output_formats = [(str ''backup_running'',
                                [(str ''show clock'', str ''!Time: 10:00'' @ [nl] @ str ''hostname r1'' @ [nl])])]\<rparr>)
      \<lparr>snapshot_timestamp = 0, device_name = str ''r1'', device_type = str ''cisco_router'',
       output_formats = [(str ''backup_running'',
                          [(str ''show clock'', str ''!Time: 11:30'' @ [nl] @ str ''hostname r1'' @ [nl])]),
                         (str ''info'', [(str ''show version'', str ''v2'' @ [nl])])]\<rparr> \<and>
   detect_config_change
      (Some \<lparr>snapshot_timestamp = 1, device_name = str ''r1'', device_type = str ''cisco_router'',
             output_formats = [(str ''backup_running'',
                                [(str ''show clock'', str ''!Time: 10:00'' @ [nl] @ str ''hostname r1'' @ [nl])])]\<rparr>)
      \<lparr>snapshot_timestamp = 0, device_name = str ''r1'', device_type = str ''cisco_router'',
       output_formats = [(str ''backup_running'',
                          [(str ''show clock'', str ''!Time: 11:30'' @ [nl] @ str ''hostname r2'' @ [nl])])]\<rparr>"
proof -
  let ?P = "Some \<lparr>snapshot_timestamp = 1, device_name = str ''r1'', device_type = str ''cisco_router'',
             output_formats = [(str ''backup_running'',
                                [(str ''show clock'', str ''!Time: 10:00'' @ [nl] @ str ''hostname r1'' @ [nl])])]\<rparr>"
  let ?C1 = "\<lparr>snapshot_timestamp = 0, device_name = str ''r1'', device_type = str ''cisco_router'',
       output_formats = [(str ''backup_running'',
                          [(str ''show clock'', str ''!Time: 11:30'' @ [nl] @ str ''hostname r1'' @ [nl])]),
                         (str ''info'', [(str ''show version'', str ''v2'' @ [nl])])]\<rparr>"
  let ?C2 = "\<lparr>snapshot_timestamp = 0, device_name = str ''r1'', device_type = str ''cisco_router'',
       output_formats = [(str ''backup_running'',
                          [(str ''show clock'', str ''!Time: 11:30'' @ [nl] @ str ''hostname r2'' @ [nl])])]\<rparr>"
  have a: "previous_formats_of ?P \<noteq> []"
    by (simp add: previous_formats_of_def)
  have b: "\<not> section_differs ?P ?C1"
    by code_simp
  have c: "section_differs ?P ?C2"
    by code_simp
  from a b c detect_config_change_iff [of ?P ?C1] detect_config_change_iff [of ?P ?C2]
  show ?thesis by simp
qed

text \<open>
  Claim C2 as stated fails where a previous backup exists and holds no output formats: the
  detector reports a change although no section of a \<open>backup\<close> format differs.
\<close>

theorem detect_config_change_counterexample:
  "\<not> (detect_config_change
         (Some \<lparr>snapshot_timestamp = 1, device_name = str ''r1'', device_type = str ''cisco_router'',
                output_formats = []\<rparr>)
         \<lparr>snapshot_timestamp = 0, device_name = str ''r1'', device_type = str ''cisco_router'',
          output_formats = [(str ''info'', [(str ''show version'', str ''v1'' @ [nl])])]\<rparr>
       \<longleftrightarrow>
       (Some \<lparr>snapshot_timestamp = 1, device_name = str ''r1'', device_type = str ''cisco_router'',
              output_formats = []\<rparr> = None
        \<or> section_differs
         (Some \<lparr>snapshot_timestamp = 1, device_name = str ''r1'', device_type = str ''cisco_router'',
                output_formats = []\<rparr>)
         \<lparr>snapshot_timestamp = 0, device_name = str ''r1'', device_type = str ''cisco_router'',
          output_formats = [(str ''info'', [(str ''show version'', str ''v1'' @ [nl])])]\<rparr>))"
  by (simp add: detect_config_change_def previous_formats_of_def section_differs_def startswith_def)

section \<open>Properties of the storage adapter\<close>

lemma after_throttling_0: "after_throttling env m 0 w = w"
  by (simp add: after_throttling_def)

lemma after_throttling_Suc:
  "after_throttling env m n
     (w\<lparr>put_calls := Suc (put_calls w), draws := Suc (draws w),
        slept := slept w @ [uniform 0.1 m (random env (draws w))]\<rparr>) =
   after_throttling env m (Suc n) w"
proof -
  have "map (\<lambda>i. uniform 0.1 m (random env (draws w + i))) [0..<Suc n] =
        uniform 0.1 m (random env (draws w)) #
        map (\<lambda>i. uniform 0.1 m (random env (Suc (draws w) + i))) [0..<n]"
    by (simp add: upt_conv_Cons map_Suc_upt [symmetric] del: upt_Suc)
  then show ?thesis
    by (simp add: after_throttling_def del: upt_Suc)
qed

lemma put_loop_throttled:
  assumes "\<forall>i<n. throttled (put_item env (put_calls w + i))"
  shows "put_loop env table_name item m (n + k) w =
         put_loop env table_name item m k (after_throttling env m n w)"
  using assms
proof (induction n arbitrary: w)
  case 0
  show ?case by (simp add: after_throttling_0)
next
  case (Suc n)
  from Suc.prems have "throttled (put_item env (put_calls w))"
    by (metis add.right_neutral zero_less_Suc)
  then obtain code where code: "put_item env (put_calls w) = PutClientError code" "retryable code"
    by (auto simp: throttled_def split: put_result.splits)
  let ?w = "w\<lparr>put_calls := Suc (put_calls w), draws := Suc (draws w),
        slept := slept w @ [uniform 0.1 m (random env (draws w))]\<rparr>"
  from Suc.prems have "\<forall>i<n. throttled (put_item env (put_calls ?w + i))"
    by auto
  from Suc.IH [OF this]
  show ?case
    by (simp add: code Let_def after_throttling_Suc)
qed

lemma uniform_range:
  assumes "0 \<le> u" "u < 1" "a \<le> b"
  shows "a \<le> uniform a b u \<and> uniform a b u \<le> b"
proof -
  from assms have "0 \<le> (b - a) * u" by simp
  moreover from assms have "(b - a) * u \<le> (b - a) * 1"
    by (intro mult_left_mono) simp_all
  ultimately show ?thesis by (simp add: uniform_def)
qed

lemma throttled_iff:
  "throttled r \<longleftrightarrow>
     r = PutClientError ''ProvisionedThroughputExceededException'' \<or>
     r = PutClientError ''ThrottlingException''"
  by (cases r) (auto simp: throttled_def retryable_def)

text \<open>
  Claim C6. Let the first \<open>n\<close> calls of \<open>put_item\<close> raise a \<open>ClientError\<close> with the code
  \<open>ProvisionedThroughputExceededException\<close> or \<open>ThrottlingException\<close>, with \<open>n\<close> at most
  15, and let the call after them, when \<open>n\<close> is below 15, do anything else: return, raise a
  \<open>ClientError\<close> with any other code, or raise another exception. Then \<open>write\<close> makes
  \<open>n + 1\<close> attempts (15 when \<open>n\<close> is 15) and sleeps \<open>n\<close> times, once after each of the
  \<open>n\<close> attempts, each time for \<open>uniform(0.1, 10)\<close>, a duration between 0.1 and 10 seconds.
  It returns when the last attempt succeeds, and the item is stored; it raises at once, with
  no further attempt and no sleep, when the last attempt raises any other error; it raises
  after the fifteenth attempt when all fifteen were throttled.
\<close>

theorem db_write_retries:
  assumes "prepare_document c table_name doc = Inr item"
    and "\<forall>i. 0 \<le> random env i \<and> random env i < 1"
    and "\<forall>i<n. put_item env (put_calls w + i) =
                  PutClientError ''ProvisionedThroughputExceededException'' \<or>
                put_item env (put_calls w + i) = PutClientError ''ThrottlingException''"
    and "n \<le> 15"
    and "n < 15 \<longrightarrow>
           put_item env (put_calls w + n) \<noteq>
             PutClientError ''ProvisionedThroughputExceededException'' \<and>
           put_item env (put_calls w + n) \<noteq> PutClientError ''ThrottlingException''"
  shows "fst (db_write c env table_name doc w) =
           (if n = 15
            then Inl (CustomException ''Botocore: Unable to write device data document into database table after max_attempts attempts'')
            else case put_item env (put_calls w + n) of
                   PutOk \<Rightarrow> Inr ()
                 | PutClientError code \<Rightarrow>
                     Inl (CustomException ''Botocore: Unable to write document into table, Botocore exception'')
                 | PutRaises e \<Rightarrow> Inl e) \<and>
         put_calls (snd (db_write c env table_name doc w)) =
           put_calls w + (if n = 15 then 15 else n + 1) \<and>
         slept (snd (db_write c env table_name doc w)) =
           slept w @ map (\<lambda>i. uniform 0.1 10 (random env (draws w + i))) [0..<n] \<and>
         length (slept (snd (db_write c env table_name doc w))) = length (slept w) + n \<and>
         list_all (\<lambda>t. 0.1 \<le> t \<and> t \<le> 10)
           (map (\<lambda>i. uniform 0.1 10 (random env (draws w + i))) [0..<n]) \<and>
         stored (snd (db_write c env table_name doc w)) =
           stored w @ (if n < 15 \<and> put_item env (put_calls w + n) = PutOk
                       then [(table_name, item)] else [])"
proof -
  let ?w = "after_throttling env 10 n w"
  let ?sleeps = "map (\<lambda>i. uniform 0.1 10 (random env (draws w + i))) [0..<n]"
  from assms(3) have thr: "\<forall>i<n. throttled (put_item env (put_calls w + i))"
    by (simp add: throttled_iff)
  have range: "list_all (\<lambda>t. 0.1 \<le> t \<and> t \<le> 10) ?sleeps"
    unfolding list_all_iff
    using uniform_range [of _ "0.1" 10] assms(2) by auto
  have w: "put_calls ?w = put_calls w + n" "slept ?w = slept w @ ?sleeps"
    "stored ?w = stored w"
    by (simp_all add: after_throttling_def)
  show ?thesis
  proof (cases "n = 15")
    case True
    have "put_loop env table_name item 10 (n + 0) w = put_loop env table_name item 10 0 ?w"
      by (rule put_loop_throttled [OF thr])
    with True have "db_write c env table_name doc w =
        (Inl (CustomException ''Botocore: Unable to write device data document into database table after max_attempts attempts''), ?w)"
      by (simp add: db_write_def write_with_def assms(1))
    with True w range show ?thesis by simp
  next
    case False
    with assms(4) obtain k where k: "15 = n + Suc k"
      by (metis add_Suc_right le_neq_implies_less less_imp_Suc_add)
    from False assms(4,5) have nt: "\<not> throttled (put_item env (put_calls w + n))"
      by (simp add: throttled_iff)
    have "put_loop env table_name item 10 (n + Suc k) w = put_loop env table_name item 10 (Suc k) ?w"
      by (rule put_loop_throttled [OF thr])
    then have eq: "db_write c env table_name doc w = put_loop env table_name item 10 (Suc k) ?w"
      by (simp add: db_write_def write_with_def assms(1) k)
    show ?thesis
    proof (cases "put_item env (put_calls w + n)")
      case PutOk
      with eq False w range assms(4) show ?thesis by simp
    next
      case (PutClientError code)
      with nt have "\<not> retryable code" by (simp add: throttled_def)
      with PutClientError eq False w range show ?thesis by simp
    next
      case (PutRaises e)
      with eq False w range show ?thesis by simp
    qed
  qed
qed


text \<open>
  A provisioned-throughput error, two throttling errors and a fourth attempt that succeeds:
  four attempts, three sleeps of 5.05 seconds for the random value one half, the document
  stored, no exception. And a \<open>ValidationException\<close> at the first attempt: one attempt, no
  sleep, nothing stored, and the exception of \<open>write\<close>.
\<close>

theorem db_write_retries_witness:
  "fst (db_write
          \<lparr>compress = rev, decompress = (\<lambda>z. Inr (rev z)), b85encode = hexlify, b85decode = unhexlify\<rparr>
          \<lparr>put_item = (\<lambda>i. if i = 0 then PutClientError ''ProvisionedThroughputExceededException''
                          else if i < 3 then PutClientError ''ThrottlingException'' else PutOk),
           random = (\<lambda>i. 1 / 2), load_latest_backup = (\<lambda>name. Inr None)\<rparr>
          DBT_STATUS
          (JobStatus \<lparr>snapshot_name = str ''info_status'', status_timestamp = 1600000000,
                      device_info_dict = []\<rparr>)
          \<lparr>put_calls = 0, draws = 0, stored = [], slept = []\<rparr>) = Inr () \<and>
   put_calls (snd (db_write
          \<lparr>compress = rev, decompress = (\<lambda>z. Inr (rev z)), b85encode = hexlify, b85decode = unhexlify\<rparr>
          \<lparr>put_item = (\<lambda>i. if i = 0 then PutClientError ''ProvisionedThroughputExceededException''
                          else if i < 3 then PutClientError ''ThrottlingException'' else PutOk),
           random = (\<lambda>i. 1 / 2), load_latest_backup = (\<lambda>name. Inr None)\<rparr>
          DBT_STATUS
          (JobStatus \<lparr>snapshot_name = str ''info_status'', status_timestamp = 1600000000,
                      device_info_dict = []\<rparr>)
          \<lparr>put_calls = 0, draws = 0, stored = [], slept = []\<rparr>)) = 4 \<and>
   slept (snd (db_write
          \<lparr>compress = rev, decompress = (\<lambda>z. Inr (rev z)), b85encode = hexlify, b85decode = unhexlify\<rparr>
          \<lparr>put_item = (\<lambda>i. if i = 0 then PutClientError ''ProvisionedThroughputExceededException''
                          else if i < 3 then PutClientError ''ThrottlingException'' else PutOk),
           random = (\<lambda>i. 1 / 2), load_latest_backup = (\<lambda>name. Inr None)\<rparr>
          DBT_STATUS
          (JobStatus \<lparr>snapshot_name = str ''info_status'', status_timestamp = 1600000000,
                      device_info_dict = []\<rparr>)
          \<lparr>put_calls = 0, draws = 0, stored = [], slept = []\<rparr>)) = [5.05, 5.05, 5.05] \<and>
   stored (snd (db_write
          \<lparr>compress = rev, decompress = (\<lambda>z. Inr (rev z)), b85encode = hexlify, b85decode = unhexlify\<rparr>
          \<lparr>put_item = (\<lambda>i. if i = 0 then PutClientError ''ProvisionedThroughputExceededException''
                          else if i < 3 then PutClientError ''ThrottlingException'' else PutOk),
           random = (\<lambda>i. 1 / 2), load_latest_backup = (\<lambda>name. Inr None)\<rparr>
          DBT_STATUS
          (JobStatus \<lparr>snapshot_name = str ''info_status'', status_timestamp = 1600000000,
                      device_info_dict = []\<rparr>)
          \<lparr>put_calls = 0, draws = 0, stored = [], slept = []\<rparr>)) =
     [(DBT_STATUS, JobStatus \<lparr>snapshot_name = str ''info_status'', status_timestamp = 1600000000,
                               device_info_dict = []\<rparr>)] \<and>
   fst (db_write
          \<lparr>compress = rev, decompress = (\<lambda>z. Inr (rev z)), b85encode = hexlify, b85decode = unhexlify\<rparr>
          \<lparr>put_item = (\<lambda>i. PutClientError ''ValidationException''),
           random = (\<lambda>i. 1 / 2), load_latest_backup = (\<lambda>name. Inr None)\<rparr>
          DBT_STATUS
          (JobStatus \<lparr>snapshot_name = str ''info_status'', status_timestamp = 1600000000,
                      device_info_dict = []\<rparr>)
          \<lparr>put_calls = 0, draws = 0, stored = [], slept = []\<rparr>) =
     Inl (CustomException ''Botocore: Unable to write document into table, Botocore exception'') \<and>
   put_calls (snd (db_write
          \<lparr>compress = rev, decompress = (\<lambda>z. Inr (rev z)), b85encode = hexlify, b85decode = unhexlify\<rparr>
          \<lparr>put_item = (\<lambda>i. PutClientError ''ValidationException''),
           random = (\<lambda>i. 1 / 2), load_latest_backup = (\<lambda>name. Inr None)\<rparr>
          DBT_STATUS
          (JobStatus \<lparr>snapshot_name = str ''info_status'', status_timestamp = 1600000000,
                      device_info_dict = []\<rparr>)
          \<lparr>put_calls = 0, draws = 0, stored = [], slept = []\<rparr>)) = 1 \<and>
   slept (snd (db_write
          \<lparr>compress = rev, decompress = (\<lambda>z. Inr (rev z)), b85encode = hexlify, b85decode = unhexlify\<rparr>
          \<lparr>put_item = (\<lambda>i. PutClientError ''ValidationException''),
           random = (\<lambda>i. 1 / 2), load_latest_backup = (\<lambda>name. Inr None)\<rparr>
          DBT_STATUS
          (JobStatus \<lparr>snapshot_name = str ''info_status'', status_timestamp = 1600000000,
                      device_info_dict = []\<rparr>)
          \<lparr>put_calls = 0, draws = 0, stored = [], slept = []\<rparr>)) = [] \<and>
   stored (snd (db_write
          \<lparr>compress = rev, decompress = (\<lambda>z. Inr (rev z)), b85encode = hexlify, b85decode = unhexlify\<rparr>
          \<lparr>put_item = (\<lambda>i. PutClientError ''ValidationException''),
           random = (\<lambda>i. 1 / 2), load_latest_backup = (\<lambda>name. Inr None)\<rparr>
          DBT_STATUS
          (JobStatus \<lparr>snapshot_name = str ''info_status'', status_timestamp = 1600000000,
                      device_info_dict = []\<rparr>)
          \<lparr>put_calls = 0, draws = 0, stored = [], slept = []\<rparr>)) = []"
proof -
  let ?C = "\<lparr>compress = rev, decompress = (\<lambda>z. Inr (rev z)), b85encode = hexlify, b85decode = unhexlify\<rparr>"
  let ?E1 = "\<lparr>put_item = (\<lambda>i. if i = 0 then PutClientError ''ProvisionedThroughputExceededException''
                          else if i < 3 then PutClientError ''ThrottlingException'' else PutOk),
           random = (\<lambda>i. 1 / 2), load_latest_backup = (\<lambda>name. Inr None)\<rparr>"
  let ?E2 = "\<lparr>put_item = (\<lambda>i. PutClientError ''ValidationException''),
           random = (\<lambda>i. 1 / 2), load_latest_backup = (\<lambda>name. Inr None)\<rparr>"
  let ?D = "JobStatus \<lparr>snapshot_name = str ''info_status'', status_timestamp = 1600000000,
                      device_info_dict = []\<rparr>"
  let ?W = "\<lparr>put_calls = 0, draws = 0, stored = [], slept = []\<rparr>"
  have p: "prepare_document ?C DBT_STATUS ?D = Inr ?D"
    by (simp add: prepare_document_def DBT_STATUS_def DBT_INFO_def DBT_BACKUP_def)
  have r1: "\<forall>i. 0 \<le> random ?E1 i \<and> random ?E1 i < 1"
    and r2: "\<forall>i. 0 \<le> random ?E2 i \<and> random ?E2 i < 1"
    by simp_all
  have t1: "\<forall>i<3. put_item ?E1 (put_calls ?W + i) =
                  PutClientError ''ProvisionedThroughputExceededException'' \<or>
                put_item ?E1 (put_calls ?W + i) = PutClientError ''ThrottlingException''"
    by simp
  have l1: "(3::nat) < 15 \<longrightarrow>
           put_item ?E1 (put_calls ?W + 3) \<noteq>
             PutClientError ''ProvisionedThroughputExceededException'' \<and>
           put_item ?E1 (put_calls ?W + 3) \<noteq> PutClientError ''ThrottlingException''"
    by simp
  have t2: "\<forall>i<0. put_item ?E2 (put_calls ?W + i) =
                  PutClientError ''ProvisionedThroughputExceededException'' \<or>
                put_item ?E2 (put_calls ?W + i) = PutClientError ''ThrottlingException''"
    by simp
  have l2: "(0::nat) < 15 \<longrightarrow>
           put_item ?E2 (put_calls ?W + 0) \<noteq>
             PutClientError ''ProvisionedThroughputExceededException'' \<and>
           put_item ?E2 (put_calls ?W + 0) \<noteq> PutClientError ''ThrottlingException''"
    by simp
  have s: "map (\<lambda>i. uniform 0.1 10 (random ?E1 (draws ?W + i))) [0..<3] = [5.05, 5.05, 5.05]"
    by (simp add: uniform_def numeral_3_eq_3)
  from db_write_retries [OF p r1 t1 _ l1] s
  have a: "fst (db_write ?C ?E1 DBT_STATUS ?D ?W) = Inr () \<and>
           put_calls (snd (db_write ?C ?E1 DBT_STATUS ?D ?W)) = 4 \<and>
           slept (snd (db_write ?C ?E1 DBT_STATUS ?D ?W)) = [5.05, 5.05, 5.05] \<and>
           stored (snd (db_write ?C ?E1 DBT_STATUS ?D ?W)) = [(DBT_STATUS, ?D)]"
    by simp
  from db_write_retries [OF p r2 t2 _ l2]
  have b: "fst (db_write ?C ?E2 DBT_STATUS ?D ?W) =
             Inl (CustomException ''Botocore: Unable to write document into table, Botocore exception'') \<and>
           put_calls (snd (db_write ?C ?E2 DBT_STATUS ?D ?W)) = 1 \<and>
           slept (snd (db_write ?C ?E2 DBT_STATUS ?D ?W)) = [] \<and>
           stored (snd (db_write ?C ?E2 DBT_STATUS ?D ?W)) = []"
    by simp
  from a b show ?thesis by simp
qed

section \<open>Properties of saving device data\<close>

lemma put_loop_stored:
  "stored (snd (put_loop env table_name item m attempts w)) =
   stored w @ (if fst (put_loop env table_name item m attempts w) = Inr () then [(table_name, item)] else [])"
proof (induction attempts arbitrary: w)
  case 0
  show ?case by simp
next
  case (Suc attempts)
  show ?case
  proof (cases "put_item env (put_calls w)")
    case PutOk
    then show ?thesis by simp
  next
    case (PutClientError code)
    show ?thesis
    proof (cases "retryable code")
      case True
      with PutClientError Suc.IH show ?thesis by (simp add: Let_def)
    next
      case False
      with PutClientError show ?thesis by simp
    qed
  next
    case (PutRaises e)
    then show ?thesis by simp
  qed
qed

lemma db_write_stored:
  assumes "fst (db_write c env table_name (DeviceData (Some d)) w) = Inr u"
    and "table_name \<in> {DBT_INFO, DBT_BACKUP}"
  shows "\<exists>z. compress_device_data c (Some d) = Inr z \<and>
             stored (snd (db_write c env table_name (DeviceData (Some d)) w)) =
             stored w @ [(table_name, DeviceData z)]"
proof (cases "compress_device_data c (Some d)")
  case (Inl e)
  with assms show ?thesis
    by (simp add: db_write_def write_with_def prepare_document_def ebind_def)
next
  case (Inr z)
  with assms(2) have eq: "db_write c env table_name (DeviceData (Some d)) w =
      put_loop env table_name (DeviceData z) 10 15 w"
    by (simp add: db_write_def write_with_def prepare_document_def ebind_def)
  with assms(1) have "fst (put_loop env table_name (DeviceData z) 10 15 w) = Inr ()" by simp
  with put_loop_stored [of env table_name "DeviceData z" 10 15 w] Inr eq show ?thesis by simp
qed

lemma save_device_data_stored:
  assumes "fst (save_device_data c env device_data timestamp config_change force_backup w) = Inr u"
  shows "\<exists>backup_doc info_doc.
           compress_device_data c (Some (make_document device_data timestamp DBT_INFO)) = Inr info_doc \<and>
           (if config_change \<or> force_backup
            then compress_device_data c (Some (make_document device_data timestamp DBT_BACKUP)) = Inr backup_doc \<and>
                 stored (snd (save_device_data c env device_data timestamp config_change force_backup w)) =
                   stored w @ [(DBT_BACKUP, DeviceData backup_doc), (DBT_INFO, DeviceData info_doc)]
            else stored (snd (save_device_data c env device_data timestamp config_change force_backup w)) =
                   stored w @ [(DBT_INFO, DeviceData info_doc)])"
proof (cases "config_change \<or> force_backup")
  case False
  with assms have "fst (db_write c env DBT_INFO (DeviceData (Some (make_document device_data timestamp DBT_INFO))) w) = Inr u"
    by (simp add: save_device_data_def save_table_def)
  from db_write_stored [OF this] False show ?thesis
    by (auto simp: save_device_data_def save_table_def)
next
  case True
  let ?b = "db_write c env DBT_BACKUP (DeviceData (Some (make_document device_data timestamp DBT_BACKUP))) w"
  obtain r w1 where b: "?b = (r, w1)" by (cases ?b)
  show ?thesis
  proof (cases r)
    case (Inl e)
    with assms True b show ?thesis
      by (simp add: save_device_data_def save_table_def)
  next
    case (Inr v)
    with b have "fst ?b = Inr v" by simp
    from db_write_stored [OF this] b obtain zb where
      zb: "compress_device_data c (Some (make_document device_data timestamp DBT_BACKUP)) = Inr zb"
      "stored w1 = stored w @ [(DBT_BACKUP, DeviceData zb)]"
      by auto
    let ?i = "db_write c env DBT_INFO (DeviceData (Some (make_document device_data timestamp DBT_INFO))) w1"
    from assms True b Inr have s: "save_device_data c env device_data timestamp config_change force_backup w = ?i"
      by (simp add: save_device_data_def save_table_def)
    with assms have "fst ?i = Inr u" by simp
    from db_write_stored [OF this] obtain zi where
      zi: "compress_device_data c (Some (make_document device_data timestamp DBT_INFO)) = Inr zi"
      "stored (snd ?i) = stored w1 @ [(DBT_INFO, DeviceData zi)]"
      by auto
    from True zb zi s show ?thesis by simp
  qed
qed

text \<open>
  Claim C1. In a backup job that is no test run, let the snapshot of a device be retrieved
  and let the job of the device succeed. Then the job stores the snapshot in the backup
  table if and only if the change detector reports a change or \<open>force_backup\<close> is set, and
  it stores the snapshot in the info table in either case: the items it adds to the database
  are the compressed backup document followed by the compressed info document, or the
  compressed info document alone.
\<close>

theorem cli_process_saves:
  assumes "get_device_data session device_info = Inr device_data"
    and "load_latest_backup env (device_name device_data) = Inr latest_backup"
    and "fst (cli_process c env session device_info timestamp force_backup False w) = Inr names"
  shows "\<exists>backup_doc info_doc.
           compress_device_data c (Some (make_document device_data timestamp DBT_INFO)) = Inr info_doc \<and>
           (if detect_config_change latest_backup device_data \<or> force_backup
            then compress_device_data c (Some (make_document device_data timestamp DBT_BACKUP)) = Inr backup_doc \<and>
                 stored (snd (cli_process c env session device_info timestamp force_backup False w)) =
                   stored w @ [(DBT_BACKUP, DeviceData backup_doc), (DBT_INFO, DeviceData info_doc)]
            else stored (snd (cli_process c env session device_info timestamp force_backup False w)) =
                   stored w @ [(DBT_INFO, DeviceData info_doc)])"
proof -
  let ?change = "detect_config_change latest_backup device_data"
  let ?s = "save_device_data c env device_data timestamp ?change force_backup w"
  obtain r w1 where s: "?s = (r, w1)" by (cases ?s)
  have body: "cli_process_body c env session device_info timestamp force_backup False w =
      (case r of Inl e \<Rightarrow> (Inl e, w1) | Inr u \<Rightarrow> (Inr [info_device_name device_info], w1))"
    by (simp add: cli_process_body_def assms(1,2) s Let_def split: sum.splits)
  show ?thesis
  proof (cases r)
    case (Inl e)
    with body assms(3) show ?thesis
      by (auto simp: cli_process_def exception_handler_def split: exn.splits)
  next
    case (Inr u)
    with body s have w1: "snd (cli_process c env session device_info timestamp force_backup False w) = snd ?s"
      by (simp add: cli_process_def)
    from s Inr have "fst ?s = Inr u" by simp
    then show ?thesis
      unfolding w1 by (rule save_device_data_stored)
  qed
qed

lemma put_loop_ok:
  assumes "put_item env (put_calls w) = PutOk" "0 < attempts"
  shows "put_loop env table_name item m attempts w =
         (Inr (), w\<lparr>put_calls := Suc (put_calls w), stored := stored w @ [(table_name, item)]\<rparr>)"
  using assms by (cases attempts) simp_all

lemma well_formed_make_document:
  "well_formed_snapshot d \<Longrightarrow> well_formed_snapshot (make_document d timestamp table_name)"
  by (auto simp: well_formed_snapshot_def make_document_def list_all_iff distinct_map_filter)

lemma compress_device_data_total:
  assumes "codec_roundtrip c" "well_formed_snapshot d"
  shows "\<exists>z. compress_device_data c (Some d) = Inr (Some z)"
proof -
  from assms(2) have "list_all (\<lambda>(format_name, commands). well_formed_commands commands) (output_formats d)"
    and "distinct (map fst (output_formats d))"
    by (simp_all add: well_formed_snapshot_def)
  from compress_formats_eq [OF assms(1) this, of "[]"]
  show ?thesis by (simp add: compress_device_data_def ebind_def)
qed

lemma save_table_ok:
  assumes "codec_roundtrip c" "well_formed_snapshot d" "\<forall>n. put_item env n = PutOk"
    "table_name \<in> {DBT_INFO, DBT_BACKUP}"
  shows "\<exists>z. save_table c env d timestamp table_name w =
         (Inr (), w\<lparr>put_calls := Suc (put_calls w), stored := stored w @ [(table_name, DeviceData (Some z))]\<rparr>)"
proof -
  from compress_device_data_total [OF assms(1) well_formed_make_document [OF assms(2)]]
  obtain z where "compress_device_data c (Some (make_document d timestamp table_name)) = Inr (Some z)" ..
  with assms(3,4) show ?thesis
    by (auto simp: save_table_def db_write_def write_with_def prepare_document_def ebind_def put_loop_ok)
qed

lemma cli_process_ok:
  assumes "codec_roundtrip c" "get_device_data session device_info = Inr device_data"
    "well_formed_snapshot device_data"
    "load_latest_backup env (device_name device_data) = Inr latest_backup"
    "\<forall>n. put_item env n = PutOk"
  shows "fst (cli_process c env session device_info timestamp force_backup False w) =
         Inr [info_device_name device_info]"
proof -
  have i: "\<And>w. \<exists>w'. save_table c env device_data timestamp DBT_INFO w = (Inr (), w')"
    using save_table_ok [OF assms(1,3,5), of DBT_INFO] by blast
  have b: "\<And>w. \<exists>w'. save_table c env device_data timestamp DBT_BACKUP w = (Inr (), w')"
    using save_table_ok [OF assms(1,3,5), of DBT_BACKUP] by blast
  have "\<exists>w'. save_device_data c env device_data timestamp
          (detect_config_change latest_backup device_data) force_backup w = (Inr (), w')"
  proof (cases "detect_config_change latest_backup device_data \<or> force_backup")
    case True
    from b [of w] obtain w1 where w1: "save_table c env device_data timestamp DBT_BACKUP w = (Inr (), w1)" ..
    from i [of w1] obtain w2 where "save_table c env device_data timestamp DBT_INFO w1 = (Inr (), w2)" ..
    with True w1 show ?thesis by (simp add: save_device_data_def)
  next
    case False
    with i [of w] show ?thesis by (simp add: save_device_data_def)
  qed
  then obtain w' where "save_device_data c env device_data timestamp
          (detect_config_change latest_backup device_data) force_backup w = (Inr (), w')" ..
  then show ?thesis
    by (simp add: cli_process_def cli_process_body_def assms(2,4) exception_handler_def)
qed

text \<open>
  A first backup (no previous one) writes to the backup table and to the info table; with a
  previous backup equal to the current one only the info table is written.
\<close>

theorem cli_process_saves_witness:
  "fst (cli_process
     \<lparr>compress = rev, decompress = (\<lambda>z. Inr (rev z)), b85encode = hexlify, b85decode = unhexlify\<rparr>
     \<lparr>put_item = (\<lambda>n. PutOk), random = (\<lambda>n. 0), load_latest_backup = (\<lambda>name. Inr None)\<rparr>
     (\<lambda>device_info. Inr \<lparr>snapshot_timestamp = 0, device_name = str ''r1'', device_type = str ''cisco_router'',
         output_formats = [(str ''backup_running'', [(str ''show run'', str ''hostname r1'' @ [nl])]),
                           (str ''info'', [(str ''show clock'', str ''10:00'' @ [nl])])]\<rparr>)
     \<lparr>info_device_name = str ''r1'', info_device_type = str ''cisco_router'', auth = str ''password'',
      username = str ''netcat'', password = str ''secret''\<rparr>
     1600000000 False False
     \<lparr>put_calls = 0, draws = 0, stored = [], slept = []\<rparr>) = Inr [str ''r1''] \<and>
   map fst (stored (snd (cli_process
     \<lparr>compress = rev, decompress = (\<lambda>z. Inr (rev z)), b85encode = hexlify, b85decode = unhexlify\<rparr>
     \<lparr>put_item = (\<lambda>n. PutOk), random = (\<lambda>n. 0), load_latest_backup = (\<lambda>name. Inr None)\<rparr>
     (\<lambda>device_info. Inr \<lparr>snapshot_timestamp = 0, device_name = str ''r1'', device_type = str ''cisco_router'',
         output_formats = [(str ''backup_running'', [(str ''show run'', str ''hostname r1'' @ [nl])]),
                           (str ''info'', [(str ''show clock'', str ''10:00'' @ [nl])])]\<rparr>)
     \<lparr>info_device_name = str ''r1'', info_device_type = str ''cisco_router'', auth = str ''password'',
      username = str ''netcat'', password = str ''secret''\<rparr>
     1600000000 False False
     \<lparr>put_calls = 0, draws = 0, stored = [], slept = []\<rparr>))) = [DBT_BACKUP, DBT_INFO] \<and>
   fst (cli_process
     \<lparr>compress = rev, decompress = (\<lambda>z. Inr (rev z)), b85encode = hexlify, b85decode = unhexlify\<rparr>
     \<lparr>put_item = (\<lambda>n. PutOk), random = (\<lambda>n. 0),
      load_latest_backup = (\<lambda>name. Inr (Some \<lparr>snapshot_timestamp = 0, device_name = str ''r1'', device_type = str ''cisco_router'',
            output_formats = [(str ''backup_running'', [(str ''show run'', str ''hostname r1'' @ [nl])]),
                              (str ''info'', [(str ''show clock'', str ''10:00'' @ [nl])])]\<rparr>))\<rparr>
     (\<lambda>device_info. Inr \<lparr>snapshot_timestamp = 0, device_name = str ''r1'', device_type = str ''cisco_router'',
         output_formats = [(str ''backup_running'', [(str ''show run'', str ''hostname r1'' @ [nl])]),
                           (str ''info'', [(str ''show clock'', str ''10:00'' @ [nl])])]\<rparr>)
     \<lparr>info_device_name = str ''r1'', info_device_type = str ''cisco_router'', auth = str ''password'',
      username = str ''netcat'', password = str ''secret''\<rparr>
     1600000000 False False
     \<lparr>put_calls = 0, draws = 0, stored = [], slept = []\<rparr>) = Inr [str ''r1''] \<and>
   map fst (stored (snd (cli_process
     \<lparr>compress = rev, decompress = (\<lambda>z. Inr (rev z)), b85encode = hexlify, b85decode = unhexlify\<rparr>
     \<lparr>put_item = (\<lambda>n. PutOk), random = (\<lambda>n. 0),
      load_latest_backup = (\<lambda>name. Inr (Some \<lparr>snapshot_timestamp = 0, device_name = str ''r1'', device_type = str ''cisco_router'',
            output_formats = [(str ''backup_running'', [(str ''show run'', str ''hostname r1'' @ [nl])]),
                              (str ''info'', [(str ''show clock'', str ''10:00'' @ [nl])])]\<rparr>))\<rparr>
     (\<lambda>device_info. Inr \<lparr>snapshot_timestamp = 0, device_name = str ''r1'', device_type = str ''cisco_router'',
         output_formats = [(str ''backup_running'', [(str ''show run'', str ''hostname r1'' @ [nl])]),
                           (str ''info'', [(str ''show clock'', str ''10:00'' @ [nl])])]\<rparr>)
     \<lparr>info_device_name = str ''r1'', info_device_type = str ''cisco_router'', auth = str ''password'',
      username = str ''netcat'', password = str ''secret''\<rparr>
     1600000000 False False
     \<lparr>put_calls = 0, draws = 0, stored = [], slept = []\<rparr>))) = [DBT_INFO]"
proof -
  let ?C = "\<lparr>compress = rev, decompress = (\<lambda>z. Inr (rev z)), b85encode = hexlify, b85decode = unhexlify\<rparr>"
  let ?D = "\<lparr>snapshot_timestamp = 0, device_name = str ''r1'', device_type = str ''cisco_router'',
      output_formats = [(str ''backup_running'', [(str ''show run'', str ''hostname r1'' @ [nl])]),
                        (str ''info'', [(str ''show clock'', str ''10:00'' @ [nl])])]\<rparr>"
  let ?E1 = "\<lparr>put_item = (\<lambda>n. PutOk), random = (\<lambda>n. 0), load_latest_backup = (\<lambda>name. Inr None)\<rparr>"
  let ?E2 = "\<lparr>put_item = (\<lambda>n. PutOk), random = (\<lambda>n. 0), load_latest_backup = (\<lambda>name. Inr (Some ?D))\<rparr>"
  let ?S = "\<lambda>device_info :: device_info. (Inr ?D :: exn + device_data)"
  let ?I = "\<lparr>info_device_name = str ''r1'', info_device_type = str ''cisco_router'', auth = str ''password'',
      username = str ''netcat'', password = str ''secret''\<rparr>"
  let ?W = "\<lparr>put_calls = 0, draws = 0, stored = [], slept = []\<rparr>"
  have c: "codec_roundtrip ?C"
    by (simp add: codec_roundtrip_def utf8_decode_hexlify unhexlify_hexlify ebind_def)
  have g: "get_device_data ?S ?I = Inr ?D"
    by (simp add: get_device_data_def startswith_def)
  have wf: "well_formed_snapshot ?D"
    by (simp add: well_formed_snapshot_def well_formed_commands_def unicode_scalar_def nl_def)
  have l1: "load_latest_backup ?E1 (device_name ?D) = Inr None" by simp
  have l2: "load_latest_backup ?E2 (device_name ?D) = Inr (Some ?D)" by simp
  have ok1: "fst (cli_process ?C ?E1 ?S ?I 1600000000 False False ?W) = Inr [str ''r1'']"
    using cli_process_ok [OF c g wf l1, of 1600000000 False ?W] by simp
  have ok2: "fst (cli_process ?C ?E2 ?S ?I 1600000000 False False ?W) = Inr [str ''r1'']"
    using cli_process_ok [OF c g wf l2, of 1600000000 False ?W] by simp
  have ch1: "detect_config_change None ?D"
    by (simp add: detect_config_change_def previous_formats_of_def)
  have ch2: "\<not> detect_config_change (Some ?D) ?D"
    by code_simp
  from cli_process_saves [OF g l1 ok1] ch1
  have s1: "map fst (stored (snd (cli_process ?C ?E1 ?S ?I 1600000000 False False ?W))) = [DBT_BACKUP, DBT_INFO]"
    by auto
  from cli_process_saves [OF g l2 ok2] ch2
  have s2: "map fst (stored (snd (cli_process ?C ?E2 ?S ?I 1600000000 False False ?W))) = [DBT_INFO]"
    by auto
  from ok1 s1 ok2 s2 show ?thesis by simp
qed

text \<open>
  Claim C9 (as amended). The document for the info table holds exactly the output formats of
  the snapshot whose names begin with \<open>info\<close>, in their order, and the document for the
  backup table exactly those whose names begin with \<open>backup\<close>; both carry the device name and
  the device type of the snapshot, and the timestamp of the job in place of the snapshot's own.
\<close>

theorem make_document_formats:
  "output_formats (make_document device_data timestamp DBT_INFO) =
     filter (\<lambda>(format_name, commands). startswith format_name (str ''info''))
       (output_formats device_data) \<and>
   output_formats (make_document device_data timestamp DBT_BACKUP) =
     filter (\<lambda>(format_name, commands). startswith format_name (str ''backup''))
       (output_formats device_data) \<and>
   device_name (make_document device_data timestamp table_name) = device_name device_data \<and>
   device_type (make_document device_data timestamp table_name) = device_type device_data \<and>
   snapshot_timestamp (make_document device_data timestamp table_name) = timestamp"
  by (simp add: make_document_def DBT_INFO_def DBT_BACKUP_def)

text \<open>
  Claim C9 as stated fails for a snapshot with a format named \<open>status\<close>, taken with the
  timestamp 0 of the session and saved in the job of timestamp 1600000000: the info document
  does not hold the format \<open>status\<close>, whose name does not begin with \<open>backup\<close>, and its
  timestamp is not the snapshot's.
\<close>

theorem make_document_counterexample:
  "output_formats
     (make_document
        \<lparr>snapshot_timestamp = 0, device_name = str ''r1'', device_type = str ''cisco_router'',
         output_formats = [(str ''backup_running'', [(str ''show run'', str ''hostname r1'' @ [nl])]),
                           (str ''info'', [(str ''show clock'', str ''10:00'' @ [nl])]),
                           (str ''status'', [(str ''show users'', str ''none'' @ [nl])])]\<rparr>
        1600000000 DBT_INFO) \<noteq>
   filter (\<lambda>(format_name, commands). \<not> startswith format_name (str ''backup''))
     (output_formats
        \<lparr>snapshot_timestamp = 0, device_name = str ''r1'', device_type = str ''cisco_router'',
         output_formats = [(str ''backup_running'', [(str ''show run'', str ''hostname r1'' @ [nl])]),
                           (str ''info'', [(str ''show clock'', str ''10:00'' @ [nl])]),
                           (str ''status'', [(str ''show users'', str ''none'' @ [nl])])]\<rparr>) \<and>
   snapshot_timestamp
     (make_document
        \<lparr>snapshot_timestamp = 0, device_name = str ''r1'', device_type = str ''cisco_router'',
         output_formats = [(str ''backup_running'', [(str ''show run'', str ''hostname r1'' @ [nl])]),
                           (str ''info'', [(str ''show clock'', str ''10:00'' @ [nl])]),
                           (str ''status'', [(str ''show users'', str ''none'' @ [nl])])]\<rparr>
        1600000000 DBT_INFO) \<noteq>
   snapshot_timestamp
     \<lparr>snapshot_timestamp = 0, device_name = str ''r1'', device_type = str ''cisco_router'',
      output_formats = [(str ''backup_running'', [(str ''show run'', str ''hostname r1'' @ [nl])]),
                        (str ''info'', [(str ''show clock'', str ''10:00'' @ [nl])]),
                        (str ''status'', [(str ''show users'', str ''none'' @ [nl])])]\<rparr>"
  by (simp add: make_document_def DBT_INFO_def startswith_def)

section \<open>Properties of the CLI session\<close>

lemma snd_expect:
  "snd (expect x patterns w) =
   w\<lparr>expect_calls := Suc (expect_calls w), trace := trace w @ [Expect patterns]\<rparr>"
  by (simp add: expect_def Let_def split: expect_outcome.splits)

lemma expect_Matched:
  "x (expect_calls w) = Matched i \<Longrightarrow>
   expect x patterns w =
   (Inr i, w\<lparr>expect_calls := Suc (expect_calls w), trace := trace w @ [Expect patterns]\<rparr>)"
  by (simp add: expect_def Let_def)

lemma password_loop_last:
  "snd (password_loop x self [True] w) =
     w\<lparr>expect_calls := Suc (expect_calls w),
       trace := trace w @ [SendLine (self_password self), Expect (prompt_patterns self)]\<rparr>"
  "x (expect_calls w) = Matched 0 \<Longrightarrow> fst (password_loop x self [True] w) = Inr ()"
  "x (expect_calls w) = Matched 1 \<Longrightarrow>
     fst (password_loop x self [True] w) =
     Inl (CustomException ''Cannot login with supplied credentials'')"
  by (simp_all add: expect_def sendline_def prompt_patterns_def Let_def split: expect_outcome.splits)

lemma password_loop_reprompt:
  assumes "x (expect_calls w) = Matched 1"
  shows "trace (snd (password_loop x self [False, True] w)) =
           trace w @ [SendLine (self_password self), Expect (prompt_patterns self), Sleep 5,
                      SendLine (self_password self), Expect (prompt_patterns self)]"
    and "x (Suc (expect_calls w)) = Matched 0 \<Longrightarrow>
           fst (password_loop x self [False, True] w) = Inr ()"
    and "x (Suc (expect_calls w)) = Matched 1 \<Longrightarrow>
           fst (password_loop x self [False, True] w) =
           Inl (CustomException ''Cannot login with supplied credentials'')"
proof -
  define w1 where "w1 = w\<lparr>expect_calls := Suc (expect_calls w),
      trace := trace w @ [SendLine (self_password self), Expect (prompt_patterns self), Sleep 5]\<rparr>"
  have "expect x (prompt_patterns self) (sendline (self_password self) w) =
        (Inr 1, w\<lparr>expect_calls := Suc (expect_calls w),
                   trace := trace w @ [SendLine (self_password self), Expect (prompt_patterns self)]\<rparr>)"
    using assms expect_Matched [of x "sendline (self_password self) w" 1 "prompt_patterns self"]
    by (simp add: sendline_def)
  then have first: "password_loop x self [False, True] w = password_loop x self [True] w1"
    by (simp add: w1_def sleep_def prompt_patterns_def del: password_loop.simps(2))
       (simp add: prompt_patterns_def sleep_def)
  have calls: "expect_calls w1 = Suc (expect_calls w)"
    and tr: "trace w1 = trace w @ [SendLine (self_password self), Expect (prompt_patterns self), Sleep 5]"
    by (simp_all add: w1_def)
  show "trace (snd (password_loop x self [False, True] w)) =
           trace w @ [SendLine (self_password self), Expect (prompt_patterns self), Sleep 5,
                      SendLine (self_password self), Expect (prompt_patterns self)]"
    unfolding first password_loop_last(1) by (simp add: tr)
  show "fst (password_loop x self [False, True] w) = Inr ()"
    if "x (Suc (expect_calls w)) = Matched 0"
    unfolding first using that calls by (intro password_loop_last(2)) simp
  show "fst (password_loop x self [False, True] w) =
           Inl (CustomException ''Cannot login with supplied credentials'')"
    if "x (Suc (expect_calls w)) = Matched 1"
    unfolding first using that calls by (intro password_loop_last(3)) simp
qed

text \<open>
  Claim C7. In password authentication, let the device show the password prompt and, after
  the first password is sent, show it again. Then the session sleeps 5 seconds once and sends
  the password a second time, and does nothing more than that and the \<open>expect\<close> that
  follows; when this \<open>expect\<close> finds the CLI prompt, \<open>open_cli\<close> returns and the session is
  open; when it finds the password prompt again, \<open>open_cli\<close> raises the exception
  "Cannot login with supplied credentials".
\<close>

theorem open_cli_password_retry:
  assumes "self_auth self = str ''password''"
    and "x (expect_calls w) = Matched 0"
    and "x (Suc (expect_calls w)) = Matched 1"
  shows "(x (Suc (Suc (expect_calls w))) = Matched 0 \<longrightarrow> fst (open_cli x self w) = Inr ()) \<and>
         (x (Suc (Suc (expect_calls w))) = Matched 1 \<longrightarrow>
            fst (open_cli x self w) =
            Inl (CustomException ''Cannot login with supplied credentials'')) \<and>
         trace (snd (open_cli x self w)) =
           trace w @ [Spawn (ssh_password_command self), Expect (login_patterns self),
                      SendLine (self_password self), Expect (prompt_patterns self), Sleep 5,
                      SendLine (self_password self), Expect (prompt_patterns self)]"
proof -
  define w1 where "w1 = w\<lparr>expect_calls := Suc (expect_calls w),
      trace := trace w @ [Spawn (ssh_password_command self), Expect (login_patterns self)]\<rparr>"
  have "expect x (login_patterns self) (spawn (ssh_password_command self) w) = (Inr 0, w1)"
    using assms(2) expect_Matched [of x "spawn (ssh_password_command self) w" 0 "login_patterns self"]
    by (simp add: spawn_def w1_def)
  then have body: "open_cli_body x self w = password_loop x self [False, True] w1"
    using assms(1)
    by (simp add: open_cli_body_def login_patterns_def ssh_password_command_def
          del: password_loop.simps)
  have calls: "expect_calls w1 = Suc (expect_calls w)"
    and tr: "trace w1 = trace w @ [Spawn (ssh_password_command self), Expect (login_patterns self)]"
    by (simp_all add: w1_def)
  from assms(3) calls have re: "x (expect_calls w1) = Matched 1" by simp
  note loop = password_loop_reprompt [of x w1 self, OF re]
  have fst_open: "fst (open_cli x self w) =
      cli_exception_handler (fst (password_loop x self [False, True] w1))"
    by (simp add: open_cli_def body split: prod.splits del: password_loop.simps)
  have snd_open: "snd (open_cli x self w) = snd (password_loop x self [False, True] w1)"
    by (simp add: open_cli_def body split: prod.splits del: password_loop.simps)
  have a: "fst (open_cli x self w) = Inr ()" if "x (Suc (Suc (expect_calls w))) = Matched 0"
    using loop(2) that calls by (simp add: fst_open cli_exception_handler_def del: password_loop.simps)
  have b: "fst (open_cli x self w) = Inl (CustomException ''Cannot login with supplied credentials'')"
    if "x (Suc (Suc (expect_calls w))) = Matched 1"
    using loop(3) that calls by (simp add: fst_open cli_exception_handler_def del: password_loop.simps)
  have c: "trace (snd (open_cli x self w)) =
           trace w @ [Spawn (ssh_password_command self), Expect (login_patterns self),
                      SendLine (self_password self), Expect (prompt_patterns self), Sleep 5,
                      SendLine (self_password self), Expect (prompt_patterns self)]"
    using loop(1) by (simp add: snd_open tr del: password_loop.simps)
  from a b c show ?thesis by blast
qed

text \<open>
  A device that rejects the first password and accepts the second, and one that rejects
  both: the same trace with one sleep of 5 seconds, an open session for the first and the
  exception for the second.
\<close>

theorem open_cli_password_retry_witness:
  "fst (open_cli (\<lambda>n. if n = 1 then Matched 1 else Matched 0)
      \<lparr>self_username = str ''netcat'', self_password = str ''secret'', self_auth = str ''password'',
       self_name = str ''lb1'', self_cli_prompt = str ''# '', self_password_prompt = str ''Password: ''\<rparr>
      \<lparr>expect_calls = 0, trace = []\<rparr>) = Inr () \<and>
   trace (snd (open_cli (\<lambda>n. if n = 1 then Matched 1 else Matched 0)
      \<lparr>self_username = str ''netcat'', self_password = str ''secret'', self_auth = str ''password'',
       self_name = str ''lb1'', self_cli_prompt = str ''# '', self_password_prompt = str ''Password: ''\<rparr>
      \<lparr>expect_calls = 0, trace = []\<rparr>)) =
     [Spawn (str ''ssh -o PubkeyAuthentication=no -l netcat lb1''),
      Expect [str ''Password: '', str ''Are you sure you want to continue connecting (yes/no)?'',
              str ''Connection refused''],
      SendLine (str ''secret''), Expect [str ''# '', str ''Password: ''], Sleep 5,
      SendLine (str ''secret''), Expect [str ''# '', str ''Password: '']] \<and>
   fst (open_cli (\<lambda>n. if n = 0 then Matched 0 else Matched 1)
      \<lparr>self_username = str ''netcat'', self_password = str ''secret'', self_auth = str ''password'',
       self_name = str ''lb1'', self_cli_prompt = str ''# '', self_password_prompt = str ''Password: ''\<rparr>
      \<lparr>expect_calls = 0, trace = []\<rparr>) = Inl (CustomException ''Cannot login with supplied credentials'') \<and>
   trace (snd (open_cli (\<lambda>n. if n = 0 then Matched 0 else Matched 1)
      \<lparr>self_username = str ''netcat'', self_password = str ''secret'', self_auth = str ''password'',
       self_name = str ''lb1'', self_cli_prompt = str ''# '', self_password_prompt = str ''Password: ''\<rparr>
      \<lparr>expect_calls = 0, trace = []\<rparr>)) =
     [Spawn (str ''ssh -o PubkeyAuthentication=no -l netcat lb1''),
      Expect [str ''Password: '', str ''Are you sure you want to continue connecting (yes/no)?'',
              str ''Connection refused''],
      SendLine (str ''secret''), Expect [str ''# '', str ''Password: ''], Sleep 5,
      SendLine (str ''secret''), Expect [str ''# '', str ''Password: '']]"
proof -
  let ?self = "\<lparr>self_username = str ''netcat'', self_password = str ''secret'', self_auth = str ''password'',
       self_name = str ''lb1'', self_cli_prompt = str ''# '', self_password_prompt = str ''Password: ''\<rparr>"
  let ?w = "\<lparr>expect_calls = 0, trace = []\<rparr>"
  let ?x1 = "(\<lambda>n. if n = 1 then Matched 1 else Matched 0) :: nat \<Rightarrow> expect_outcome"
  let ?x2 = "(\<lambda>n. if n = 0 then Matched 0 else Matched 1) :: nat \<Rightarrow> expect_outcome"
  have a: "self_auth ?self = str ''password''" by simp
  have p1: "?x1 (expect_calls ?w) = Matched 0" "?x1 (Suc (expect_calls ?w)) = Matched 1"
    "?x1 (Suc (Suc (expect_calls ?w))) = Matched 0"
    by simp_all
  have p2: "?x2 (expect_calls ?w) = Matched 0" "?x2 (Suc (expect_calls ?w)) = Matched 1"
    "?x2 (Suc (Suc (expect_calls ?w))) = Matched 1"
    by simp_all
  from open_cli_password_retry [OF a p1(1,2)] p1(3) open_cli_password_retry [OF a p2(1,2)] p2(3)
  show ?thesis
    by (simp add: ssh_password_command_def login_patterns_def prompt_patterns_def)
qed

section \<open>Properties of the fleet runner\<close>

lemma cli_process_names:
  assumes "fst (cli_process c env session device_info timestamp force_backup test_run w) = Inr names"
  shows "names = [info_device_name device_info]"
proof -
  obtain r w' where b: "cli_process_body c env session device_info timestamp force_backup test_run w = (r, w')"
    by (cases "cli_process_body c env session device_info timestamp force_backup test_run w")
  with assms have "exception_handler r = Inr names"
    by (simp add: cli_process_def)
  then have r: "r = Inr names"
    by (auto simp: exception_handler_def split: sum.splits exn.splits)
  from b [unfolded cli_process_body_def] r show ?thesis
    by (auto simp: Let_def split: sum.splits if_splits prod.splits)
qed

lemma device_job_names:
  "device_job c e timestamp args d = Inr names \<Longrightarrow> names = [info_device_name d]"
  unfolding device_job_def by (rule cli_process_names)

lemma call_each_subset:
  assumes "call_each f xs = Inr rs" "\<And>x r. x \<in> set xs \<Longrightarrow> f x = Inr r \<Longrightarrow> set r \<subseteq> A"
  shows "set (concat rs) \<subseteq> A"
  using assms
proof (induction xs arbitrary: rs)
  case Nil
  then show ?case by simp
next
  case (Cons x xs)
  from Cons.prems(1) obtain r rs' where r: "f x = Inr r" and rs': "call_each f xs = Inr rs'"
    and rs: "rs = r # rs'"
    by (auto simp: ebind_def split: sum.splits)
  from Cons.prems(2) [of x r] r have "set r \<subseteq> A" by simp
  moreover have "set (concat rs') \<subseteq> A"
    by (rule Cons.IH [OF rs']) (use Cons.prems(2) in auto)
  ultimately show ?case by (simp add: rs)
qed

lemma pool_results_subset:
  assumes "\<And>x r. x \<in> set xs \<Longrightarrow> f x = Inr r \<Longrightarrow> set r \<subseteq> A"
  shows "set (concat (pool_results f xs)) \<subseteq> A"
proof
  fix y
  assume "y \<in> set (concat (pool_results f xs))"
  then obtain x r where "x \<in> set xs" "f x = Inr r" "y \<in> set r"
    by (auto simp: pool_results_def split: sum.splits if_splits) (metis)
  with assms [of x r] show "y \<in> A" by auto
qed

lemma execute_subset:
  assumes "execute_data_processing_function single data_list f = Inr names"
    "\<And>x r. x \<in> set data_list \<Longrightarrow> f x = Inr r \<Longrightarrow> set r \<subseteq> A"
  shows "set names \<subseteq> A"
proof (cases "data_list = []")
  case True
  with assms(1) show ?thesis by (simp add: execute_data_processing_function_def)
next
  case False
  show ?thesis
  proof (cases single)
    case True
    with False assms(1) obtain rs where "call_each f data_list = Inr rs" "names = concat rs"
      by (auto simp: execute_data_processing_function_def ebind_def split: sum.splits)
    with call_each_subset [OF this(1) assms(2)] show ?thesis by simp
  next
    case single: False
    with False assms(1) have "names = concat (pool_results f data_list)"
      by (simp add: execute_data_processing_function_def)
    with pool_results_subset [OF assms(2)] show ?thesis by simp
  qed
qed

text \<open>
  Claim C5. In every backup run that gets as far as its lists of device names, the
  successful and the failed names partition the requested ones: as sets their union is the
  requested names and their intersection is empty, so that every requested device is in
  exactly one of the two lists.
\<close>

theorem device_name_lists_partition:
  assumes "device_name_lists c e timestamp args =
           Inr (device_info_list, requested, successful, failed)"
  shows "set successful \<union> set failed = set requested \<and>
         set successful \<inter> set failed = {} \<and>
         (\<forall>name \<in> set requested. (name \<in> set successful) \<noteq> (name \<in> set failed))"
proof -
  let ?inv = "read_info_list_file (device_info_list_file e)"
  let ?req = "sort (get_requested_device_name_list (re_search e) ?inv args)"
  let ?sel = "filter (\<lambda>d. info_device_name d \<in> set ?req) ?inv"
  from assms obtain names where
    ex: "execute_data_processing_function (arg_single_process args) ?sel (device_job c e timestamp args) = Inr names"
    and req: "requested = ?req" and suc: "successful = sort names"
    and fl: "failed = sorted_list_of_set (set requested - set successful)"
    by (auto simp: device_name_lists_def ebind_def Let_def split: sum.splits if_splits)
  have "set names \<subseteq> set ?req"
  proof (rule execute_subset [OF ex])
    fix d r
    assume "d \<in> set ?sel" "device_job c e timestamp args d = Inr r"
    then show "set r \<subseteq> set ?req"
      using device_job_names [of c e timestamp args d r] by auto
  qed
  with req suc have sub: "set successful \<subseteq> set requested" by simp
  have "set failed = set requested - set successful"
    by (simp add: fl)
  with sub show ?thesis by auto
qed

text \<open>
  A run for all devices of an inventory of two, in which the router is backed up and the
  connection to the load balancer is refused.
\<close>

theorem device_name_lists_partition_witness:
  "device_name_lists
     \<lparr>compress = rev, decompress = (\<lambda>z. Inr (rev z)), b85encode = hexlify, b85decode = unhexlify\<rparr>
     \<lparr>create_tables = Inr (),
      device_info_list_file = Entries [\<lparr>info_device_name = str ''r1'', info_device_type = str ''cisco_router'', auth = str ''password'',
              username = str ''netcat'', password = str ''secret''\<rparr>,
                                \<lparr>info_device_name = str ''lb1'', info_device_type = str ''f5'', auth = str ''password'',
              username = str ''netcat'', password = str ''secret''\<rparr>],
      re_search = (\<lambda>regexp. None),
      device_env = (\<lambda>d. \<lparr>put_item = (\<lambda>n. PutOk), random = (\<lambda>n. 0), load_latest_backup = (\<lambda>name. Inr None)\<rparr>),
      device_session = (\<lambda>d. if info_device_name d = str ''r1''
                             then Inr \<lparr>snapshot_timestamp = 0, device_name = str ''r1'', device_type = str ''cisco_router'',
                             output_formats = [(str ''backup_running'', [(str ''show run'', str ''hostname r1'' @ [nl])]),
                                               (str ''info'', [(str ''show clock'', str ''10:00'' @ [nl])])]\<rparr>
                             else Inl (CustomException ''Connection refused by device'')),
      status_env = \<lparr>put_item = (\<lambda>n. PutOk), random = (\<lambda>n. 0), load_latest_backup = (\<lambda>name. Inr None)\<rparr>\<rparr>
     1600000000
     \<lparr>arg_debug = False, arg_single_process = False, arg_force_backup = False, arg_test_run = False,
      arg_all = True, arg_group = None, arg_device = None, arg_regexp = None\<rparr> =
   Inr ([\<lparr>info_device_name = str ''r1'', info_device_type = str ''cisco_router'', auth = str ''password'',
      username = str ''netcat'', password = str ''secret''\<rparr>,
         \<lparr>info_device_name = str ''lb1'', info_device_type = str ''f5'', auth = str ''password'',
      username = str ''netcat'', password = str ''secret''\<rparr>],
        [str ''lb1'', str ''r1''], [str ''r1''], [str ''lb1'']) \<and>
   set [str ''r1''] \<union> set [str ''lb1''] = set [str ''lb1'', str ''r1''] \<and>
   set [str ''r1''] \<inter> set [str ''lb1''] = {}"
proof -
  let ?C = "\<lparr>compress = rev, decompress = (\<lambda>z. Inr (rev z)), b85encode = hexlify, b85decode = unhexlify\<rparr>"
  let ?D = "\<lparr>snapshot_timestamp = 0, device_name = str ''r1'', device_type = str ''cisco_router'',
      output_formats = [(str ''backup_running'', [(str ''show run'', str ''hostname r1'' @ [nl])]),
                        (str ''info'', [(str ''show clock'', str ''10:00'' @ [nl])])]\<rparr>"
  let ?R1 = "\<lparr>info_device_name = str ''r1'', info_device_type = str ''cisco_router'', auth = str ''password'',
      username = str ''netcat'', password = str ''secret''\<rparr>"
  let ?LB1 = "\<lparr>info_device_name = str ''lb1'', info_device_type = str ''f5'', auth = str ''password'',
      username = str ''netcat'', password = str ''secret''\<rparr>"
  let ?ENV = "\<lparr>put_item = (\<lambda>n. PutOk), random = (\<lambda>n. 0), load_latest_backup = (\<lambda>name. Inr None)\<rparr>"
  let ?E = "\<lparr>create_tables = Inr (), device_info_list_file = Entries [?R1, ?LB1],
      re_search = (\<lambda>regexp. None), device_env = (\<lambda>d. ?ENV),
      device_session = (\<lambda>d. if info_device_name d = str ''r1'' then Inr ?D
                             else Inl (CustomException ''Connection refused by device'')),
      status_env = ?ENV\<rparr>"
  let ?A = "\<lparr>arg_debug = False, arg_single_process = False, arg_force_backup = False, arg_test_run = False,
      arg_all = True, arg_group = None, arg_device = None, arg_regexp = None\<rparr>"
  have c: "codec_roundtrip ?C"
    by (simp add: codec_roundtrip_def utf8_decode_hexlify unhexlify_hexlify ebind_def)
  have wf: "well_formed_snapshot ?D"
    by (simp add: well_formed_snapshot_def well_formed_commands_def unicode_scalar_def nl_def)
  have g: "get_device_data (device_session ?E) ?R1 = Inr ?D"
    by (simp add: get_device_data_def startswith_def)
  have j1: "device_job ?C ?E 1600000000 ?A ?R1 = Inr [str ''r1'']"
    unfolding device_job_def
    using cli_process_ok [OF c g wf, of ?ENV None 1600000000 False initial_world] by simp
  have j2: "device_job ?C ?E 1600000000 ?A ?LB1 = Inl (SystemExit (Some 1))"
    by (simp add: device_job_def cli_process_def cli_process_body_def get_device_data_def
          startswith_def exception_handler_def)
  have req: "get_requested_device_name_list (re_search ?E) [?R1, ?LB1] ?A = [str ''r1'', str ''lb1'']"
    by (simp add: get_requested_device_name_list_def)
  have "set [str ''lb1'', str ''r1''] - set [str ''r1''] = {str ''lb1''}"
    by auto
  moreover have "sorted_list_of_set {str ''lb1''} = [str ''lb1'']"
    by simp
  ultimately have fl: "sorted_list_of_set (set [str ''lb1'', str ''r1''] - set [str ''r1'']) = [str ''lb1'']"
    by (simp only:)
  have so: "sort [str ''r1'', str ''lb1''] = [str ''lb1'', str ''r1'']"
    by simp
  have l: "device_name_lists ?C ?E 1600000000 ?A =
           Inr ([?R1, ?LB1], [str ''lb1'', str ''r1''], [str ''r1''], [str ''lb1''])"
    unfolding device_name_lists_def Let_def
    using req [simplified]
    by (simp add: ebind_def read_info_list_file_def so execute_data_processing_function_def
          pool_results_def j1 [simplified] j2 [simplified] fl [simplified])
  from device_name_lists_partition [OF l] l show ?thesis by simp
qed

section \<open>Properties of the exit code\<close>

lemma save_final_status_ok:
  assumes "put_item env 0 = PutOk"
  shows "fst (save_final_status c env l ts s f initial_world) = Inr ()"
proof -
  have "DBT_STATUS \<notin> {DBT_INFO, DBT_BACKUP}"
    by (simp add: DBT_STATUS_def DBT_INFO_def DBT_BACKUP_def)
  then show ?thesis
    using assms
    by (simp add: save_final_status_def db_write_def write_with_def prepare_document_def
          initial_world_def put_loop_ok)
qed

lemma device_name_lists_eq:
  assumes "create_tables e = Inr ()"
  shows "device_name_lists c e timestamp args =
     (if read_info_list_file (device_info_list_file e) = [] then Inl (SystemExit None)
      else if requested_names e args = [] then Inl (SystemExit None)
      else ebind (execute_data_processing_function (arg_single_process args)
                    (selected_devices e args) (device_job c e timestamp args))
             (\<lambda>names. Inr (read_info_list_file (device_info_list_file e), requested_names e args,
                            sort names,
                            sorted_list_of_set (set (requested_names e args) - set (sort names)))))"
  by (simp add: device_name_lists_def assms ebind_def Let_def requested_names_def
        selected_devices_def del: set_sort)

lemma main_body_completes:
  assumes "device_name_lists c e timestamp args = Inr res" "status_write_succeeds e args"
  shows "main_body c e timestamp args = Inr 0"
proof -
  obtain l r s f where res: "res = (l, r, s, f)" by (cases res)
  show ?thesis
  proof (cases "arg_test_run args")
    case True
    with assms(1) show ?thesis by (simp add: main_body_def ebind_def res)
  next
    case False
    with assms(2) have "put_item (status_env e) 0 = PutOk"
      by (simp add: status_write_succeeds_def)
    from save_final_status_ok [OF this] False assms(1) show ?thesis
      by (simp add: main_body_def ebind_def res)
  qed
qed

lemma exit_code_SystemExit_None: "exit_code (exception_handler (Inl (SystemExit None))) = 0"
  by (simp add: exit_code_def exception_handler_def)

lemma call_each_all_return:
  assumes "\<forall>x \<in> set xs. \<exists>r. f x = Inr r"
  shows "\<exists>rs. call_each f xs = Inr rs"
  using assms by (induction xs) (auto simp: ebind_def)

lemma call_each_raises:
  assumes "\<exists>x \<in> set xs. f x = Inl e" "\<forall>x \<in> set xs. (\<exists>r. f x = Inr r) \<or> f x = Inl e"
  shows "call_each f xs = Inl e"
  using assms
proof (induction xs)
  case Nil
  then show ?case by simp
next
  case (Cons x xs)
  show ?case
  proof (cases "f x")
    case (Inl e')
    with Cons.prems(2) show ?thesis by auto
  next
    case (Inr r)
    with Cons.prems have "\<exists>x \<in> set xs. f x = Inl e" "\<forall>x \<in> set xs. (\<exists>r. f x = Inr r) \<or> f x = Inl e"
      by auto
    from Cons.IH [OF this] Inr show ?thesis by (simp add: ebind_def)
  qed
qed

lemma execute_pool: "\<exists>names. execute_data_processing_function False xs f = Inr names"
  by (simp add: execute_data_processing_function_def)

lemma execute_all_return:
  assumes "\<forall>x \<in> set xs. \<exists>r. f x = Inr r"
  shows "\<exists>names. execute_data_processing_function single xs f = Inr names"
  using call_each_all_return [OF assms]
  by (auto simp: execute_data_processing_function_def ebind_def)

lemma execute_raises:
  assumes "\<exists>x \<in> set xs. f x = Inl e" "\<forall>x \<in> set xs. (\<exists>r. f x = Inr r) \<or> f x = Inl e"
  shows "execute_data_processing_function True xs f = Inl e"
proof -
  from assms(1) have "xs \<noteq> []" by auto
  with call_each_raises [OF assms] show ?thesis
    by (simp add: execute_data_processing_function_def ebind_def)
qed

text \<open>
  The exit code that \<open>sys.exit(main())\<close> gives once \<open>main\<close> is called and
  \<open>db.create_tables\<close> raises nothing. It is 0 when \<open>main\<close> completes: in multi-process mode
  whenever the first \<open>put_item\<close> of the final status succeeds, however many devices failed,
  and in any mode when every job of a selected device returns. It is 0 as well when the
  inventory file is missing, unreadable or empty, and when no valid device is requested. It is
  1 when, in single-process mode, the job of a device fails with \<open>sys.exit(1)\<close>, and when a
  \<open>CustomException\<close> reaches the handler of \<open>main\<close>.
\<close>

lemma main_exit_code:
  assumes "create_tables e = Inr ()"
  shows "(status_write_succeeds e args \<and> \<not> arg_single_process args \<longrightarrow>
            exit_code (main c e timestamp args) = 0) \<and>
         (status_write_succeeds e args \<and>
          (\<forall>d \<in> set (selected_devices e args). \<exists>names. device_job c e timestamp args d = Inr names) \<longrightarrow>
            exit_code (main c e timestamp args) = 0) \<and>
         (read_info_list_file (device_info_list_file e) = [] \<longrightarrow>
            exit_code (main c e timestamp args) = 0) \<and>
         (requested_names e args = [] \<longrightarrow> exit_code (main c e timestamp args) = 0) \<and>
         (arg_single_process args \<and> read_info_list_file (device_info_list_file e) \<noteq> [] \<and>
          requested_names e args \<noteq> [] \<and>
          (\<exists>d \<in> set (selected_devices e args).
              device_job c e timestamp args d = Inl (SystemExit (Some 1))) \<and>
          (\<forall>d \<in> set (selected_devices e args).
              (\<exists>names. device_job c e timestamp args d = Inr names) \<or>
              device_job c e timestamp args d = Inl (SystemExit (Some 1))) \<longrightarrow>
            exit_code (main c e timestamp args) = 1) \<and>
         (\<forall>message. main_body c e timestamp args = Inl (CustomException message) \<longrightarrow>
            exit_code (main c e timestamp args) = 1)"
proof -
  note lists = device_name_lists_eq [OF assms, of c timestamp args]
  have early: "exit_code (main c e timestamp args) = 0"
    if "read_info_list_file (device_info_list_file e) = [] \<or> requested_names e args = []"
  proof -
    from that lists have "device_name_lists c e timestamp args = Inl (SystemExit None)"
      by auto
    then show ?thesis
      by (simp add: main_def main_body_def ebind_def exit_code_SystemExit_None)
  qed
  have completes: "exit_code (main c e timestamp args) = 0"
    if ok: "status_write_succeeds e args"
      and ex: "\<exists>names. execute_data_processing_function (arg_single_process args)
                 (selected_devices e args) (device_job c e timestamp args) = Inr names"
  proof (cases "read_info_list_file (device_info_list_file e) = [] \<or> requested_names e args = []")
    case True
    then show ?thesis by (rule early)
  next
    case False
    with lists ex obtain res where "device_name_lists c e timestamp args = Inr res"
      by (auto simp: ebind_def)
    from main_body_completes [OF this ok] show ?thesis
      by (simp add: main_def exception_handler_def exit_code_def)
  qed
  have a: "exit_code (main c e timestamp args) = 0"
    if "status_write_succeeds e args" "\<not> arg_single_process args"
    using that execute_pool by (intro completes) simp_all
  have b: "exit_code (main c e timestamp args) = 0"
    if "status_write_succeeds e args"
      "\<forall>d \<in> set (selected_devices e args). \<exists>names. device_job c e timestamp args d = Inr names"
    using that execute_all_return by (intro completes) blast+
  have f: "exit_code (main c e timestamp args) = 1"
    if "arg_single_process args" "read_info_list_file (device_info_list_file e) \<noteq> []"
      "requested_names e args \<noteq> []"
      "\<exists>d \<in> set (selected_devices e args). device_job c e timestamp args d = Inl (SystemExit (Some 1))"
      "\<forall>d \<in> set (selected_devices e args).
          (\<exists>names. device_job c e timestamp args d = Inr names) \<or>
          device_job c e timestamp args d = Inl (SystemExit (Some 1))"
  proof -
    from execute_raises [OF that(4,5)] that(1)
    have "execute_data_processing_function (arg_single_process args) (selected_devices e args)
            (device_job c e timestamp args) = Inl (SystemExit (Some 1))"
      by simp
    with lists that(2,3) have "device_name_lists c e timestamp args = Inl (SystemExit (Some 1))"
      by (simp add: ebind_def)
    then show ?thesis
      by (simp add: main_def main_body_def ebind_def exception_handler_def exit_code_def)
  qed
  have g: "exit_code (main c e timestamp args) = 1"
    if "main_body c e timestamp args = Inl (CustomException message)" for message
    using that by (simp add: main_def exception_handler_def exit_code_def)
  from a b early f g show ?thesis by blast
qed

text \<open>
  For the two devices of which the load balancer refuses the connection, \<open>main\<close> gives exit
  code 0 in multi-process mode and exit code 1 in single-process mode.
\<close>

lemma main_exit_code_two_devices:
  "exit_code (main
      \<lparr>compress = rev, decompress = (\<lambda>z. Inr (rev z)), b85encode = hexlify, b85decode = unhexlify\<rparr>
      \<lparr>create_tables = Inr (),
       device_info_list_file = Entries [\<lparr>info_device_name = str ''r1'', info_device_type = str ''cisco_router'', auth = str ''password'',
               username = str ''netcat'', password = str ''secret''\<rparr>,
                \<lparr>info_device_name = str ''lb1'', info_device_type = str ''f5'', auth = str ''password'',
               username = str ''netcat'', password = str ''secret''\<rparr>],
       re_search = (\<lambda>regexp. None),
       device_env = (\<lambda>d. \<lparr>put_item = (\<lambda>n. PutOk), random = (\<lambda>n. 0), load_latest_backup = (\<lambda>name. Inr None)\<rparr>),
       device_session = (\<lambda>d. if info_device_name d = str ''r1''
                              then Inr \<lparr>snapshot_timestamp = 0, device_name = str ''r1'', device_type = str ''cisco_router'',
                              output_formats = [(str ''backup_running'', [(str ''show run'', str ''hostname r1'' @ [nl])]),
                                                (str ''info'', [(str ''show clock'', str ''10:00'' @ [nl])])]\<rparr>
                              else Inl (CustomException ''Connection refused by device'')),
       status_env = \<lparr>put_item = (\<lambda>n. PutOk), random = (\<lambda>n. 0), load_latest_backup = (\<lambda>name. Inr None)\<rparr>\<rparr>
      1600000000
      \<lparr>arg_debug = False, arg_single_process = False, arg_force_backup = False,
       arg_test_run = False, arg_all = True, arg_group = None, arg_device = None, arg_regexp = None\<rparr>) = 0 \<and>
   exit_code (main
      \<lparr>compress = rev, decompress = (\<lambda>z. Inr (rev z)), b85encode = hexlify, b85decode = unhexlify\<rparr>
      \<lparr>create_tables = Inr (),
       device_info_list_file = Entries [\<lparr>info_device_name = str ''r1'', info_device_type = str ''cisco_router'', auth = str ''password'',
               username = str ''netcat'', password = str ''secret''\<rparr>,
                \<lparr>info_device_name = str ''lb1'', info_device_type = str ''f5'', auth = str ''password'',
               username = str ''netcat'', password = str ''secret''\<rparr>],
       re_search = (\<lambda>regexp. None),
       device_env = (\<lambda>d. \<lparr>put_item = (\<lambda>n. PutOk), random = (\<lambda>n. 0), load_latest_backup = (\<lambda>name. Inr None)\<rparr>),
       device_session = (\<lambda>d. if info_device_name d = str ''r1''
                              then Inr \<lparr>snapshot_timestamp = 0, device_name = str ''r1'', device_type = str ''cisco_router'',
                              output_formats = [(str ''backup_running'', [(str ''show run'', str ''hostname r1'' @ [nl])]),
                                                (str ''info'', [(str ''show clock'', str ''10:00'' @ [nl])])]\<rparr>
                              else Inl (CustomException ''Connection refused by device'')),
       status_env = \<lparr>put_item = (\<lambda>n. PutOk), random = (\<lambda>n. 0), load_latest_backup = (\<lambda>name. Inr None)\<rparr>\<rparr>
      1600000000
      \<lparr>arg_debug = False, arg_single_process = True, arg_force_backup = False,
       arg_test_run = False, arg_all = True, arg_group = None, arg_device = None, arg_regexp = None\<rparr>) = 1"
proof -
  let ?C = "\<lparr>compress = rev, decompress = (\<lambda>z. Inr (rev z)), b85encode = hexlify, b85decode = unhexlify\<rparr>"
  let ?D = "\<lparr>snapshot_timestamp = 0, device_name = str ''r1'', device_type = str ''cisco_router'',
      output_formats = [(str ''backup_running'', [(str ''show run'', str ''hostname r1'' @ [nl])]),
                        (str ''info'', [(str ''show clock'', str ''10:00'' @ [nl])])]\<rparr>"
  let ?R1 = "\<lparr>info_device_name = str ''r1'', info_device_type = str ''cisco_router'', auth = str ''password'',
      username = str ''netcat'', password = str ''secret''\<rparr>"
  let ?LB1 = "\<lparr>info_device_name = str ''lb1'', info_device_type = str ''f5'', auth = str ''password'',
      username = str ''netcat'', password = str ''secret''\<rparr>"
  let ?ENV = "\<lparr>put_item = (\<lambda>n. PutOk), random = (\<lambda>n. 0), load_latest_backup = (\<lambda>name. Inr None)\<rparr>"
  let ?E = "\<lparr>create_tables = Inr (), device_info_list_file = Entries [?R1, ?LB1],
      re_search = (\<lambda>regexp. None), device_env = (\<lambda>d. ?ENV),
      device_session = (\<lambda>d. if info_device_name d = str ''r1'' then Inr ?D
                             else Inl (CustomException ''Connection refused by device'')),
      status_env = ?ENV\<rparr>"
  let ?M = "\<lparr>arg_debug = False, arg_single_process = False, arg_force_backup = False,
       arg_test_run = False, arg_all = True, arg_group = None, arg_device = None, arg_regexp = None\<rparr>"
  let ?S = "\<lparr>arg_debug = False, arg_single_process = True, arg_force_backup = False,
       arg_test_run = False, arg_all = True, arg_group = None, arg_device = None, arg_regexp = None\<rparr>"
  have t: "create_tables ?E = Inr ()" by simp
  have m: "status_write_succeeds ?E ?M \<and> \<not> arg_single_process ?M"
    by (simp add: status_write_succeeds_def)
  have c: "codec_roundtrip ?C"
    by (simp add: codec_roundtrip_def utf8_decode_hexlify unhexlify_hexlify ebind_def)
  have wf: "well_formed_snapshot ?D"
    by (simp add: well_formed_snapshot_def well_formed_commands_def unicode_scalar_def nl_def)
  have g: "get_device_data (device_session ?E) ?R1 = Inr ?D"
    by (simp add: get_device_data_def startswith_def)
  have j1: "device_job ?C ?E 1600000000 ?S ?R1 = Inr [str ''r1'']"
    unfolding device_job_def
    using cli_process_ok [OF c g wf, of ?ENV None 1600000000 False initial_world] by simp
  have j2: "device_job ?C ?E 1600000000 ?S ?LB1 = Inl (SystemExit (Some 1))"
    by (simp add: device_job_def cli_process_def cli_process_body_def get_device_data_def
          startswith_def exception_handler_def)
  have inv: "read_info_list_file (device_info_list_file ?E) = [?R1, ?LB1]"
    by (simp add: read_info_list_file_def)
  have req: "requested_names ?E ?S = [str ''lb1'', str ''r1'']"
    by (simp add: requested_names_def read_info_list_file_def get_requested_device_name_list_def)
  have sel: "selected_devices ?E ?S = [?R1, ?LB1]"
    unfolding selected_devices_def req inv by simp
  have s: "arg_single_process ?S \<and> read_info_list_file (device_info_list_file ?E) \<noteq> [] \<and>
          requested_names ?E ?S \<noteq> [] \<and>
          (\<exists>d \<in> set (selected_devices ?E ?S).
              device_job ?C ?E 1600000000 ?S d = Inl (SystemExit (Some 1))) \<and>
          (\<forall>d \<in> set (selected_devices ?E ?S).
              (\<exists>names. device_job ?C ?E 1600000000 ?S d = Inr names) \<or>
              device_job ?C ?E 1600000000 ?S d = Inl (SystemExit (Some 1)))"
    unfolding sel req inv using j1 j2 by simp
  from main_exit_code [OF t, of ?M ?C 1600000000] m
  have a: "exit_code (main ?C ?E 1600000000 ?M) = 0" by blast
  from main_exit_code [OF t, of ?S ?C 1600000000] s
  have b: "exit_code (main ?C ?E 1600000000 ?S) = 1" by blast
  from a b show ?thesis by simp
qed

text \<open>
  For an inventory file that cannot be read \<open>main\<close> logs the error and leaves by
  \<open>sys.exit()\<close>, which is exit code 0.
\<close>

lemma main_exit_code_unreadable_inventory:
  "exit_code (main
      \<lparr>compress = rev, decompress = (\<lambda>z. Inr (rev z)), b85encode = hexlify, b85decode = unhexlify\<rparr>
      \<lparr>create_tables = Inr (),
       device_info_list_file = Unreadable,
       re_search = (\<lambda>regexp. None),
       device_env = (\<lambda>d. \<lparr>put_item = (\<lambda>n. PutOk), random = (\<lambda>n. 0), load_latest_backup = (\<lambda>name. Inr None)\<rparr>),
       device_session = (\<lambda>d. if info_device_name d = str ''r1''
                              then Inr \<lparr>snapshot_timestamp = 0, device_name = str ''r1'', device_type = str ''cisco_router'',
                              output_formats = [(str ''backup_running'', [(str ''show run'', str ''hostname r1'' @ [nl])]),
                                                (str ''info'', [(str ''show clock'', str ''10:00'' @ [nl])])]\<rparr>
                              else Inl (CustomException ''Connection refused by device'')),
       status_env = \<lparr>put_item = (\<lambda>n. PutOk), random = (\<lambda>n. 0), load_latest_backup = (\<lambda>name. Inr None)\<rparr>\<rparr>
      1600000000
      \<lparr>arg_debug = False, arg_single_process = False, arg_force_backup = False,
       arg_test_run = False, arg_all = True, arg_group = None, arg_device = None, arg_regexp = None\<rparr>) = 0"
  by (simp add: main_def main_body_def device_name_lists_def ebind_def read_info_list_file_def
        exception_handler_def exit_code_def)

text \<open>
  Claim C8. The code departs from it. The claim asks for exit code 0 whenever the backup
  program completes, and for a non-zero code on programmatic errors only. The program never
  reaches \<open>main\<close>: whatever the inventory, the command line and the devices, the import of
  netcat\_cli\_f5 raises \<open>SyntaxError\<close>, and the exit code is 1.
\<close>

theorem netcat_backup_exit_code:
  "exit_code (netcat_backup c e timestamp args) = 1"
  by (simp add: netcat_backup_def import_netcat_cli_f5_def ebind_def exit_code_def)

end
